theory Spec2Isabelle
  imports Main
begin

section \<open>JavaScript values and strings\<close>

text \<open>
  The manifest header is parsed into a loosely typed, string-keyed bag
  (\<^verbatim>\<open>Record<string, unknown>\<close>). Its values are JavaScript values. Numbers are
  kept as integers (the only thing the code asks of a number is whether it is a string,
  an array, or falsy). A \<^typ>\<open>char\<close> stands for one UTF-16 code unit below 256, so
  \<^const>\<open>length\<close> is the \<^verbatim>\<open>.length\<close> of the source for such strings.
\<close>

datatype jsval =
    JUndefined
  | JNull
  | JBool bool
  | JNum int
  | JStr string
  | JArr "jsval list"
  | JObj "(string \<times> jsval) list"

definition getProp :: "(string \<times> jsval) list \<Rightarrow> string \<Rightarrow> jsval" where
  "getProp obj k = (case map_of obj k of None \<Rightarrow> JUndefined | Some v \<Rightarrow> v)"

text \<open>\<^verbatim>\<open>!v\<close>: the falsy values.\<close>

fun falsy :: "jsval \<Rightarrow> bool" where
  "falsy JUndefined = True"
| "falsy JNull = True"
| "falsy (JBool b) = (\<not> b)"
| "falsy (JNum n) = (n = 0)"
| "falsy (JStr s) = (s = [])"
| "falsy (JArr xs) = False"
| "falsy (JObj kvs) = False"

fun isString :: "jsval \<Rightarrow> bool" where
  "isString (JStr s) = True"
| "isString v = False"

fun startsWith :: "string \<Rightarrow> string \<Rightarrow> bool" where
  "startsWith s p = (take (length p) s = p)"

fun endsWith :: "string \<Rightarrow> string \<Rightarrow> bool" where
  "endsWith s p = (length p \<le> length s \<and> drop (length s - length p) s = p)"

fun includes_str :: "string \<Rightarrow> string \<Rightarrow> bool" where
  "includes_str [] p = (p = [])"
| "includes_str (c # cs) p = (startsWith (c # cs) p \<or> includes_str cs p)"

text \<open>The number of positions of \<open>s\<close> at which \<open>p\<close> occurs.\<close>

fun occurrences :: "string \<Rightarrow> string \<Rightarrow> nat" where
  "occurrences [] p = (if p = [] then 1 else 0)"
| "occurrences (c # cs) p = (if startsWith (c # cs) p then 1 else 0) + occurrences cs p"

text \<open>
  \<^verbatim>\<open>String.prototype.trim\<close> strips white space and line terminators from both
  ends; below code unit 256 these are TAB, LF, VT, FF, CR, SPACE and NBSP.
\<close>

definition isWhiteSpace :: "char \<Rightarrow> bool" where
  "isWhiteSpace c = ((of_char c :: nat) \<in> {9, 10, 11, 12, 13, 32, 160})"

definition trimStart :: "string \<Rightarrow> string" where
  "trimStart s = dropWhile isWhiteSpace s"

definition trimEnd :: "string \<Rightarrow> string" where
  "trimEnd s = rev (dropWhile isWhiteSpace (rev s))"

definition trim :: "string \<Rightarrow> string" where
  "trim s = trimEnd (trimStart s)"

text \<open>\<^verbatim>\<open>lines.join("\n")\<close> and \<^verbatim>\<open>text.split("\n")\<close>.\<close>

definition newline :: char where
  "newline = CHR 0x0A"

fun joinWith :: "string \<Rightarrow> string list \<Rightarrow> string" where
  "joinWith sep [] = []"
| "joinWith sep [x] = x"
| "joinWith sep (x # y # ys) = x @ sep @ joinWith sep (y # ys)"

fun splitLines :: "string \<Rightarrow> string list" where
  "splitLines [] = [[]]"
| "splitLines (c # cs) =
     (if c = newline then [] # splitLines cs
      else (case splitLines cs of [] \<Rightarrow> [[c]] | l # ls \<Rightarrow> (c # l) # ls))"

text \<open>Decimal rendering of a length or an index inside a template literal.\<close>

definition digitChar :: "nat \<Rightarrow> char" where
  "digitChar d = char_of (48 + d)"

function showNat :: "nat \<Rightarrow> string" where
  "showNat n = (if n < 10 then [digitChar n] else showNat (n div 10) @ [digitChar (n mod 10)])"
  by pat_completeness auto
termination
  by (relation "measure (\<lambda>n. n)") auto

declare showNat.simps [simp del]

section \<open>Types (types.ts)\<close>

record ValidationError =
  field :: string
  message :: string

definition LIMITS_name :: nat where
  "LIMITS_name = 64"

definition LIMITS_description :: nat where
  "LIMITS_description = 500"

section \<open>Manifest validation (validator.ts)\<close>

text \<open>\<^verbatim>\<open>/^[a-z0-9-]+$/.test(s)\<close>: non-empty, every code unit a lowercase letter, a digit or a hyphen.\<close>

definition nameChar :: "char \<Rightarrow> bool" where
  "nameChar c = (let n = (of_char c :: nat) in (97 \<le> n \<and> n \<le> 122) \<or> (48 \<le> n \<and> n \<le> 57) \<or> n = 45)"

definition nameRegex :: "string \<Rightarrow> bool" where
  "nameRegex s = (s \<noteq> [] \<and> list_all nameChar s)"

definition mkError :: "string \<Rightarrow> string \<Rightarrow> ValidationError" where
  "mkError f m = \<lparr>field = f, message = m\<rparr>"

text \<open>The \<^verbatim>\<open>forEach((item, index) => ...)\<close> over an optional array field.\<close>

fun itemErrors :: "string \<Rightarrow> nat \<Rightarrow> jsval list \<Rightarrow> ValidationError list" where
  "itemErrors f index [] = []"
| "itemErrors f index (item # items) =
     (if \<not> isString item
      then mkError f (''Item at index '' @ showNat index @ '' must be a string'') # itemErrors f (Suc index) items
      else itemErrors f (Suc index) items)"

definition validateMetadata :: "(string \<times> jsval) list \<Rightarrow> ValidationError list" where
  "validateMetadata metadata =
    (let errors = [];
         errors =
           (if falsy (getProp metadata ''name'')
            then errors @ [mkError ''name'' ''Required field is missing'']
            else (case getProp metadata ''name'' of
                JStr name \<Rightarrow>
                  (let errors =
                         (if length name > LIMITS_name
                          then errors @ [mkError ''name''
                                 (''Must be '' @ showNat LIMITS_name @ '' characters or less (got ''
                                    @ showNat (length name) @ '')'')]
                          else errors);
                       errors =
                         (if includes_str name [newline]
                          then errors @ [mkError ''name'' ''Must be a single line (no newlines)'']
                          else errors);
                       errors =
                         (if \<not> nameRegex name
                          then errors @ [mkError ''name''
                                 ''Must contain only lowercase letters, numbers, and hyphens'']
                          else errors)
                   in errors)
              | _ \<Rightarrow> errors @ [mkError ''name'' ''Must be a string'']));
         errors =
           (if falsy (getProp metadata ''description'')
            then errors @ [mkError ''description'' ''Required field is missing'']
            else (case getProp metadata ''description'' of
                JStr description \<Rightarrow>
                  (let errors =
                         (if length description > LIMITS_description
                          then errors @ [mkError ''description''
                                 (''Must be '' @ showNat LIMITS_description @ '' characters or less (got ''
                                    @ showNat (length description) @ '')'')]
                          else errors);
                       errors =
                         (if includes_str description [newline]
                          then errors @ [mkError ''description'' ''Must be a single line (no newlines)'']
                          else errors)
                   in errors)
              | _ \<Rightarrow> errors @ [mkError ''description'' ''Must be a string'']));
         errors =
           (if getProp metadata ''allowed-tools'' \<noteq> JUndefined
            then (case getProp metadata ''allowed-tools'' of
                JArr tools \<Rightarrow> errors @ itemErrors ''allowed-tools'' 0 tools
              | _ \<Rightarrow> errors @ [mkError ''allowed-tools'' ''Must be an array''])
            else errors);
         errors =
           (if getProp metadata ''model'' \<noteq> JUndefined \<and> \<not> isString (getProp metadata ''model'')
            then errors @ [mkError ''model'' ''Must be a string'']
            else errors);
         errors =
           (if getProp metadata ''skills'' \<noteq> JUndefined
            then (case getProp metadata ''skills'' of
                JArr skills \<Rightarrow> errors @ itemErrors ''skills'' 0 skills
              | _ \<Rightarrow> errors @ [mkError ''skills'' ''Must be an array''])
            else errors)
     in errors)"

section \<open>Types (types.ts), continued\<close>

text \<open>
  \<^verbatim>\<open>SkillFile\<close>: the header bag, the text after the header and the whole file. The
  cast \<^verbatim>\<open>metadata as unknown as SkillMetadata\<close> checks nothing at run time, so the
  bag is kept as parsed.
\<close>

record SkillFile =
  metadata :: "(string \<times> jsval) list"
  content :: string
  raw :: string

section \<open>Format converter (converter.ts)\<close>

text \<open>
  \<^verbatim>\<open>String(v)\<close> as a template literal applies it, and the rendering of an array
  element by \<^verbatim>\<open>Array.prototype.join\<close> (\<^verbatim>\<open>undefined\<close> and \<^verbatim>\<open>null\<close> become
  the empty string). Numbers are the integers, rendered in decimal digits: this is what
  \<^verbatim>\<open>String\<close> gives for an integer of magnitude below \<open>10\<^sup>2\<^sup>1\<close>; fractions, and the
  exponent form JavaScript uses from that magnitude on, are outside the model.
\<close>

definition showInt :: "int \<Rightarrow> string" where
  "showInt i = (if i < 0 then ''-'' @ showNat (nat (- i)) else showNat (nat i))"

fun jsToString :: "jsval \<Rightarrow> string" where
  "jsToString JUndefined = ''undefined''"
| "jsToString JNull = ''null''"
| "jsToString (JBool b) = (if b then ''true'' else ''false'')"
| "jsToString (JNum n) = showInt n"
| "jsToString (JStr s) = s"
| "jsToString (JArr xs) =
     joinWith '','' (map (\<lambda>x. if x = JUndefined \<or> x = JNull then [] else jsToString x) xs)"
| "jsToString (JObj kvs) = ''[object Object]''"

definition joinElement :: "jsval \<Rightarrow> string" where
  "joinElement v = (if v = JUndefined \<or> v = JNull then [] else jsToString v)"

definition ruleMarker :: string where
  "ruleMarker = ''## Rule:''"

definition convertToCursorRules :: "SkillFile \<Rightarrow> string" where
  "convertToCursorRules skill =
    (let lines = [];
         lines = lines @ [''# '' @ jsToString (getProp (metadata skill) ''name'')];
         lines = lines @ [[]];
         lines = lines @ [''## Description''];
         lines = lines @ [joinElement (getProp (metadata skill) ''description'')];
         lines = lines @ [[]];
         lines =
           (if includes_str (content skill) ruleMarker
            then lines @ [trim (content skill)]
            else lines @ [''## Rule: Skill Instructions''] @ [[]] @ [trim (content skill)])
     in joinWith [newline] lines)"


section \<open>Effects: errors, the world, and the run-time environment\<close>

text \<open>
  A thrown JavaScript error: its class, as far as the source tells classes apart
  (\<^verbatim>\<open>Deno.errors.NotFound\<close>, \<^verbatim>\<open>Deno.errors.AlreadyExists\<close>, anything else), and its
  \<^verbatim>\<open>message\<close>.
\<close>

datatype errclass = NotFound | AlreadyExists | OtherError

datatype exn = Exn errclass string

fun errorClass :: "exn \<Rightarrow> errclass" where
  "errorClass (Exn c m) = c"

fun errorMessage :: "exn \<Rightarrow> string" where
  "errorMessage (Exn c m) = m"

text \<open>
  An asynchronous function of the source is a function of the world \<open>'w\<close> (the file
  system and whatever else the process can reach): it returns the thrown error or the
  result, and the world it leaves. \<open>None\<close> stands for a run that does not return
  (the recursion of \<open>copyDir\<close> below is bounded by fuel).
\<close>

type_synonym ('a, 'w) io = "'w \<Rightarrow> ((exn + 'a) \<times> 'w) option"

definition ioReturn :: "'a \<Rightarrow> ('a, 'w) io" where
  "ioReturn x = (\<lambda>w. Some (Inr x, w))"

definition ioThrow :: "exn \<Rightarrow> ('a, 'w) io" where
  "ioThrow e = (\<lambda>w. Some (Inl e, w))"

definition ioBind :: "('a, 'w) io \<Rightarrow> ('a \<Rightarrow> ('b, 'w) io) \<Rightarrow> ('b, 'w) io" where
  "ioBind m f = (\<lambda>w. case m w of
       None \<Rightarrow> None
     | Some (Inl e, w1) \<Rightarrow> Some (Inl e, w1)
     | Some (Inr x, w1) \<Rightarrow> f x w1)"

text \<open>\<^verbatim>\<open>try { m } catch (error) { h(error) }\<close>\<close>

definition ioCatch :: "('a, 'w) io \<Rightarrow> (exn \<Rightarrow> ('a, 'w) io) \<Rightarrow> ('a, 'w) io" where
  "ioCatch m h = (\<lambda>w. case m w of
       None \<Rightarrow> None
     | Some (Inl e, w1) \<Rightarrow> h e w1
     | Some (Inr x, w1) \<Rightarrow> Some (Inr x, w1))"

text \<open>
  \<^verbatim>\<open>try { m } finally { c }\<close>, for a clean-up \<open>c\<close> that swallows its own errors
  (\<^verbatim>\<open>.catch(() => {})\<close>): the outcome of \<open>m\<close> stands, in the world \<open>c\<close> leaves.
\<close>

definition ioFinally :: "('a, 'w) io \<Rightarrow> (unit, 'w) io \<Rightarrow> ('a, 'w) io" where
  "ioFinally m c = (\<lambda>w. case m w of
       None \<Rightarrow> None
     | Some (r, w1) \<Rightarrow> (case c w1 of None \<Rightarrow> None | Some (_, w2) \<Rightarrow> Some (r, w2)))"

text \<open>A call that only reads the world, and a call that may change it.\<close>

definition ioRead :: "('w \<Rightarrow> exn + 'a) \<Rightarrow> ('a, 'w) io" where
  "ioRead f = (\<lambda>w. Some (f w, w))"

definition ioCall :: "('w \<Rightarrow> (exn + 'a) \<times> 'w) \<Rightarrow> ('a, 'w) io" where
  "ioCall f = (\<lambda>w. Some (f w))"

definition ioPure :: "exn + 'a \<Rightarrow> ('a, 'w) io" where
  "ioPure r = (\<lambda>w. Some (r, w))"

section \<open>Types (types.ts): deployment and links\<close>

datatype DeployTarget = Claude | Codex | Cursor

record DeployOptions =
  targets :: "DeployTarget list"
  force :: bool
  dryRun :: bool
  projectPath :: "string option"

record DeployResult =
  target :: DeployTarget
  success :: bool
  path :: "string option"
  error :: "string option"

definition TARGET_PATHS_claude_user :: string where
  "TARGET_PATHS_claude_user = ''~/.claude/skills''"

definition TARGET_PATHS_claude_project :: string where
  "TARGET_PATHS_claude_project = ''.claude/skills''"

definition TARGET_PATHS_codex_user :: string where
  "TARGET_PATHS_codex_user = ''~/.codex/skills''"

definition TARGET_PATHS_codex_project :: string where
  "TARGET_PATHS_codex_project = ''.codex/skills''"

definition TARGET_PATHS_cursor_project :: string where
  "TARGET_PATHS_cursor_project = ''.cursorrules''"

datatype LinkType = Local | Git | Web

record SkillLink =
  link_name :: string
  link_type :: LinkType
  link_source :: string
  link_path :: "string option"
  link_branch :: "string option"
  link_enabled :: bool
  link_description :: "string option"

record SkillLinkRegistry =
  version :: string
  links :: "SkillLink list"

record LinkOptions =
  opt_target :: DeployTarget
  opt_userLevel :: "bool option"
  opt_force :: bool

record LinkResult =
  lr_success :: bool
  lr_link :: "SkillLink option"
  lr_error :: "string option"

record SyncResult =
  sr_link :: "SkillLink option"
  sr_success :: bool
  sr_deployResults :: "DeployResult list option"
  sr_error :: "string option"

definition LINK_REGISTRY_VERSION :: string where
  "LINK_REGISTRY_VERSION = ''1.0.0''"

fun LINK_REGISTRY_PATHS :: "DeployTarget \<Rightarrow> string \<times> string" where
  "LINK_REGISTRY_PATHS Claude = (''~/.claude/skill-links.json'', ''.claude/skill-links.json'')"
| "LINK_REGISTRY_PATHS Codex = (''~/.codex/skill-links.json'', ''.codex/skill-links.json'')"
| "LINK_REGISTRY_PATHS Cursor = (''~/.cursor/skill-links.json'', ''.cursor/skill-links.json'')"

text \<open>
  What \<^verbatim>\<open>JSON.parse(content) as SkillLinkRegistry\<close> yields, read at the declared
  type: the two fields the structural check looks at may be absent or ill-formed
  (\<open>None\<close>), the link records are taken at their type.
\<close>

record ParsedRegistry =
  parsedVersion :: "string option"
  parsedLinks :: "SkillLink list option"

text \<open>
  The capabilities the source calls and does not define: the Deno run time, the
  standard library's \<^verbatim>\<open>join\<close> and YAML parser, \<^verbatim>\<open>JSON\<close>, and the
  \<^verbatim>\<open>git\<close> process. The model is a function of them; nothing is assumed about
  them. \<open>denoStat\<close> returns \<^verbatim>\<open>isDirectory\<close>; \<open>denoMkdir\<close> is
  \<^verbatim>\<open>Deno.mkdir(p, { recursive: true })\<close>; \<open>denoRemove p r\<close> is
  \<^verbatim>\<open>Deno.remove(p, { recursive: r })\<close>; \<open>denoReadDir\<close> lists entry names with
  \<^verbatim>\<open>isDirectory\<close>; \<open>denoCommand\<close> is \<^verbatim>\<open>new Deno.Command(cmd, {args}).output()\<close>,
  returning \<^verbatim>\<open>success\<close> and the decoded \<^verbatim>\<open>stderr\<close>.
\<close>

record 'w runtime =
  envGet :: "string \<Rightarrow> string option"
  denoCwd :: string
  pathJoin :: "string \<Rightarrow> jsval \<Rightarrow> exn + string"
  parseYaml :: "string \<Rightarrow> exn + (string \<times> jsval) list"
  jsonParse :: "string \<Rightarrow> exn + ParsedRegistry"
  jsonStringify :: "SkillLinkRegistry \<Rightarrow> string"
  denoStat :: "string \<Rightarrow> 'w \<Rightarrow> exn + bool"
  denoReadDir :: "string \<Rightarrow> 'w \<Rightarrow> exn + (string \<times> bool) list"
  denoReadTextFile :: "string \<Rightarrow> 'w \<Rightarrow> exn + string"
  denoRemove :: "string \<Rightarrow> bool \<Rightarrow> 'w \<Rightarrow> (exn + unit) \<times> 'w"
  denoMkdir :: "string \<Rightarrow> 'w \<Rightarrow> (exn + unit) \<times> 'w"
  denoCopyFile :: "string \<Rightarrow> string \<Rightarrow> 'w \<Rightarrow> (exn + unit) \<times> 'w"
  denoWriteTextFile :: "string \<Rightarrow> string \<Rightarrow> 'w \<Rightarrow> (exn + unit) \<times> 'w"
  denoMakeTempDir :: "string \<Rightarrow> 'w \<Rightarrow> (exn + string) \<times> 'w"
  denoCommand :: "string \<Rightarrow> string list \<Rightarrow> 'w \<Rightarrow> (exn + bool \<times> string) \<times> 'w"

section \<open>Utilities (utils.ts)\<close>

definition getErrorMessage :: "exn \<Rightarrow> string" where
  "getErrorMessage e = errorMessage e"

text \<open>\<^verbatim>\<open>Deno.env.get("HOME") || Deno.env.get("USERPROFILE")\<close>: an empty string is falsy.\<close>

definition homeDir :: "'w runtime \<Rightarrow> string option" where
  "homeDir E =
     (case envGet E ''HOME'' of
        Some h \<Rightarrow> (if h \<noteq> [] then Some h else envGet E ''USERPROFILE'')
      | None \<Rightarrow> envGet E ''USERPROFILE'')"

definition expandHome :: "'w runtime \<Rightarrow> string \<Rightarrow> exn + string" where
  "expandHome E filepath =
     (if startsWith filepath ''~/''
      then (case homeDir E of
              None \<Rightarrow> Inl (Exn OtherError ''Could not determine home directory'')
            | Some home \<Rightarrow>
                (if home = [] then Inl (Exn OtherError ''Could not determine home directory'')
                 else pathJoin E home (JStr (drop 2 filepath))))
      else Inr filepath)"

text \<open>\<^verbatim>\<open>lines.slice(1).findIndex(p)\<close>: the index of the first match, if any.\<close>

fun findIndex :: "('a \<Rightarrow> bool) \<Rightarrow> 'a list \<Rightarrow> nat option" where
  "findIndex p [] = None"
| "findIndex p (x # xs) = (if p x then Some 0 else map_option Suc (findIndex p xs))"

definition parseFrontmatter :: "'w runtime \<Rightarrow> string \<Rightarrow> exn + SkillFile" where
  "parseFrontmatter E text =
     (let lines = splitLines text in
      case lines of
        [] \<Rightarrow> Inl (Exn OtherError ''SKILL.md must start with YAML frontmatter (---)'')
      | first # rest \<Rightarrow>
          if trim first \<noteq> ''---''
          then Inl (Exn OtherError ''SKILL.md must start with YAML frontmatter (---)'')
          else (case findIndex (\<lambda>line. trim line = ''---'') rest of
              None \<Rightarrow> Inl (Exn OtherError ''YAML frontmatter must end with ---'')
            | Some endIndex \<Rightarrow>
                (let yamlLines = take endIndex rest;
                     contentLines = drop (endIndex + 2) lines;
                     yamlText = joinWith [newline] yamlLines;
                     contentText = joinWith [newline] contentLines
                 in (case parseYaml E yamlText of
                       Inl e \<Rightarrow> Inl (Exn OtherError (''Invalid YAML syntax: '' @ getErrorMessage e))
                     | Inr md \<Rightarrow> Inr \<lparr>metadata = md, content = contentText, raw = text\<rparr>))))"

definition exists :: "'w runtime \<Rightarrow> string \<Rightarrow> (bool, 'w) io" where
  "exists E p =
     ioCatch (ioBind (ioRead (denoStat E p)) (\<lambda>_. ioReturn True))
       (\<lambda>e. if errorClass e = NotFound then ioReturn False else ioThrow e)"

definition ensureDir :: "'w runtime \<Rightarrow> string \<Rightarrow> (unit, 'w) io" where
  "ensureDir E p =
     ioCatch (ioCall (denoMkdir E p))
       (\<lambda>e. if errorClass e \<noteq> AlreadyExists then ioThrow e else ioReturn ())"

text \<open>
  \<^verbatim>\<open>copyDir\<close> recurses into every subdirectory the run time lists; the fuel bounds the
  depth, and a run that exhausts it does not return. \<open>copyEntries\<close> is the
  \<^verbatim>\<open>for await\<close> loop over the entries (read when the loop starts).
\<close>

fun copyDir :: "'w runtime \<Rightarrow> nat \<Rightarrow> string \<Rightarrow> string \<Rightarrow> (unit, 'w) io"
  and copyEntries :: "'w runtime \<Rightarrow> nat \<Rightarrow> string \<Rightarrow> string \<Rightarrow> (string \<times> bool) list \<Rightarrow> (unit, 'w) io"
where
  "copyDir E 0 src dest = (\<lambda>w. None)"
| "copyDir E (Suc n) src dest =
     ioBind (ensureDir E dest) (\<lambda>_.
     ioBind (ioRead (denoReadDir E src)) (\<lambda>entries.
     copyEntries E (Suc n) src dest entries))"
| "copyEntries E 0 src dest entries = (\<lambda>w. None)"
| "copyEntries E (Suc n) src dest [] = ioReturn ()"
| "copyEntries E (Suc n) src dest ((entryName, isDirectory) # entries) =
     ioBind (ioPure (pathJoin E src (JStr entryName))) (\<lambda>srcPath.
     ioBind (ioPure (pathJoin E dest (JStr entryName))) (\<lambda>destPath.
     ioBind (if isDirectory then copyDir E n srcPath destPath
             else ioCall (denoCopyFile E srcPath destPath)) (\<lambda>_.
     copyEntries E (Suc n) src dest entries)))"

definition readTextFile :: "'w runtime \<Rightarrow> string \<Rightarrow> (string, 'w) io" where
  "readTextFile E p =
     ioCatch (ioRead (denoReadTextFile E p))
       (\<lambda>e. if errorClass e = NotFound then ioThrow (Exn OtherError (''File not found: '' @ p))
             else ioThrow e)"

section \<open>Manifest files (validator.ts)\<close>

definition parseSkillFile :: "'w runtime \<Rightarrow> string \<Rightarrow> (SkillFile, 'w) io" where
  "parseSkillFile E filepath =
     ioBind (readTextFile E filepath) (\<lambda>text. ioPure (parseFrontmatter E text))"


record ValidationResult =
  vr_valid :: bool
  vr_errors :: "ValidationError list"

definition validateSkillFile :: "'w runtime \<Rightarrow> string \<Rightarrow> (ValidationResult, 'w) io" where
  "validateSkillFile E filepath =
     ioCatch
       (ioBind (parseSkillFile E filepath) (\<lambda>skill.
          (let errors = validateMetadata (metadata skill)
           in ioReturn \<lparr>vr_valid = (length errors = 0), vr_errors = errors\<rparr>)))
       (\<lambda>e. ioReturn \<lparr>vr_valid = False, vr_errors = [mkError ''file'' (getErrorMessage e)]\<rparr>)"

definition validateSkillDir :: "'w runtime \<Rightarrow> string \<Rightarrow> (ValidationResult, 'w) io" where
  "validateSkillDir E dirPath =
     ioCatch
       (ioBind (ioRead (denoStat E dirPath)) (\<lambda>isDirectory.
          if \<not> isDirectory
          then ioReturn \<lparr>vr_valid = False,
                 vr_errors = [mkError ''directory'' ''Path is not a directory'']\<rparr>
          else (let skillPath = dirPath @ ''/SKILL.md'' in
            ioBind (ioCatch (ioBind (ioRead (denoStat E skillPath)) (\<lambda>_. ioReturn True))
                      (\<lambda>_. ioReturn False)) (\<lambda>present.
              if \<not> present
              then ioReturn \<lparr>vr_valid = False,
                     vr_errors = [mkError ''SKILL.md'' ''File not found in directory'']\<rparr>
              else validateSkillFile E skillPath))))
       (\<lambda>e. ioReturn \<lparr>vr_valid = False, vr_errors = [mkError ''directory'' (getErrorMessage e)]\<rparr>)"

section \<open>Deployment (deployer.ts)\<close>

fun getTargetPath :: "DeployTarget \<Rightarrow> bool \<Rightarrow> string" where
  "getTargetPath Claude isUserLevel =
     (if isUserLevel then TARGET_PATHS_claude_user else TARGET_PATHS_claude_project)"
| "getTargetPath Codex isUserLevel =
     (if isUserLevel then TARGET_PATHS_codex_user else TARGET_PATHS_codex_project)"
| "getTargetPath Cursor isUserLevel = TARGET_PATHS_cursor_project"

definition deployToClaudeOrCodex ::
  "'w runtime \<Rightarrow> nat \<Rightarrow> string \<Rightarrow> DeployTarget \<Rightarrow> jsval \<Rightarrow> DeployOptions \<Rightarrow> (DeployResult, 'w) io"
where
  "deployToClaudeOrCodex E fuel skillDir tgt skillName options =
     ioCatch
       (let targetBase = getTargetPath tgt True in
        ioBind (ioPure (expandHome E targetBase)) (\<lambda>expandedBase.
        ioBind (ioPure (pathJoin E expandedBase skillName)) (\<lambda>targetPath.
        ioBind (exists E targetPath) (\<lambda>present.
          if present \<and> \<not> force options
          then ioReturn \<lparr>target = tgt, success = False, path = None,
                 error = Some (''Skill already exists at '' @ targetPath
                               @ ''. Use --force to overwrite.'')\<rparr>
          else
            ioBind (if present \<and> \<not> dryRun options
                    then ioCall (denoRemove E targetPath True) else ioReturn ()) (\<lambda>_.
            ioBind (if \<not> dryRun options
                    then ioBind (ensureDir E expandedBase) (\<lambda>_.
                         copyDir E fuel skillDir targetPath)
                    else ioReturn ()) (\<lambda>_.
            ioReturn \<lparr>target = tgt, success = True, path = Some targetPath, error = None\<rparr>))))))
       (\<lambda>e. ioReturn \<lparr>target = tgt, success = False, path = None,
                error = Some (errorMessage e)\<rparr>)"

definition deployToCursor :: "'w runtime \<Rightarrow> string \<Rightarrow> DeployOptions \<Rightarrow> (DeployResult, 'w) io" where
  "deployToCursor E skillDir options =
     ioCatch
       (ioBind (ioPure (pathJoin E skillDir (JStr ''SKILL.md''))) (\<lambda>skillPath.
        ioBind (parseSkillFile E skillPath) (\<lambda>skill.
          (let cursorRules = convertToCursorRules skill;
               targetPath = TARGET_PATHS_cursor_project in
           ioBind (exists E targetPath) (\<lambda>present.
             if present \<and> \<not> force options
             then ioReturn \<lparr>target = Cursor, success = False, path = None,
                    error = Some (targetPath @ '' already exists. Use --force to overwrite.'')\<rparr>
             else
               ioBind (if \<not> dryRun options
                       then ioCall (denoWriteTextFile E targetPath cursorRules)
                       else ioReturn ()) (\<lambda>_.
               ioReturn \<lparr>target = Cursor, success = True, path = Some targetPath,
                 error = None\<rparr>))))))
       (\<lambda>e. ioReturn \<lparr>target = Cursor, success = False, path = None,
                error = Some (errorMessage e)\<rparr>)"

text \<open>The \<^verbatim>\<open>for (const target of options.targets)\<close> loop of \<^verbatim>\<open>deploySkill\<close>.\<close>

fun deployTargets ::
  "'w runtime \<Rightarrow> nat \<Rightarrow> string \<Rightarrow> jsval \<Rightarrow> DeployOptions \<Rightarrow> DeployTarget list
     \<Rightarrow> (DeployResult list, 'w) io"
where
  "deployTargets E fuel skillDir skillName options [] = ioReturn []"
| "deployTargets E fuel skillDir skillName options (tgt # rest) =
     ioBind (if tgt = Cursor then deployToCursor E skillDir options
             else deployToClaudeOrCodex E fuel skillDir tgt skillName options) (\<lambda>result.
     ioBind (deployTargets E fuel skillDir skillName options rest) (\<lambda>results.
     ioReturn (result # results)))"

definition deploySkill ::
  "'w runtime \<Rightarrow> nat \<Rightarrow> string \<Rightarrow> DeployOptions \<Rightarrow> (DeployResult list, 'w) io"
where
  "deploySkill E fuel skillDir options =
     ioBind (ioPure (pathJoin E skillDir (JStr ''SKILL.md''))) (\<lambda>skillPath.
     ioBind (parseSkillFile E skillPath) (\<lambda>skill.
       (let skillName = getProp (metadata skill) ''name'' in
        deployTargets E fuel skillDir skillName options (targets options))))"

record RemoveResult =
  rm_success :: bool
  rm_error :: "string option"

definition removeSkill :: "'w runtime \<Rightarrow> string \<Rightarrow> DeployTarget \<Rightarrow> (RemoveResult, 'w) io" where
  "removeSkill E skillName tgt =
     ioCatch
       (if tgt = Cursor
        then (let targetPath = TARGET_PATHS_cursor_project in
          ioBind (exists E targetPath) (\<lambda>present.
          ioBind (if present then ioCall (denoRemove E targetPath False) else ioReturn ()) (\<lambda>_.
          ioReturn \<lparr>rm_success = True, rm_error = None\<rparr>)))
        else (let targetBase = getTargetPath tgt True in
          ioBind (ioPure (expandHome E targetBase)) (\<lambda>expandedBase.
          ioBind (ioPure (pathJoin E expandedBase (JStr skillName))) (\<lambda>targetPath.
          ioBind (exists E targetPath) (\<lambda>present.
            if present
            then ioBind (ioCall (denoRemove E targetPath True)) (\<lambda>_.
                 ioReturn \<lparr>rm_success = True, rm_error = None\<rparr>)
            else ioReturn \<lparr>rm_success = False,
                   rm_error = Some (''Skill not found: '' @ targetPath)\<rparr>)))))
       (\<lambda>e. ioReturn \<lparr>rm_success = False, rm_error = Some (errorMessage e)\<rparr>)"


section \<open>The link registry and the synchronizer (linker.ts)\<close>

definition dquote :: char where
  "dquote = CHR 0x22"

text \<open>\<^verbatim>\<open>options.userLevel ?? true\<close>\<close>

definition userLevelOrTrue :: "LinkOptions \<Rightarrow> bool" where
  "userLevelOrTrue options = (case opt_userLevel options of None \<Rightarrow> True | Some b \<Rightarrow> b)"

definition getLinkRegistryPath :: "'w runtime \<Rightarrow> DeployTarget \<Rightarrow> bool \<Rightarrow> exn + string" where
  "getLinkRegistryPath E tgt userLevel =
     (let paths = LINK_REGISTRY_PATHS tgt;
          relativePath = (if userLevel then fst paths else snd paths)
      in expandHome E relativePath)"

definition readLinkRegistry ::
  "'w runtime \<Rightarrow> DeployTarget \<Rightarrow> bool \<Rightarrow> (SkillLinkRegistry, 'w) io"
where
  "readLinkRegistry E tgt userLevel =
     ioBind (ioPure (getLinkRegistryPath E tgt userLevel)) (\<lambda>registryPath.
     ioCatch
       (ioBind (ioRead (denoReadTextFile E registryPath)) (\<lambda>fileText.
        ioBind (ioPure (jsonParse E fileText)) (\<lambda>registry.
          (case (parsedVersion registry, parsedLinks registry) of
             (Some v, Some ls) \<Rightarrow>
               if v = [] then ioThrow (Exn OtherError ''Invalid registry format'')
               else ioReturn \<lparr>version = v, links = ls\<rparr>
           | _ \<Rightarrow> ioThrow (Exn OtherError ''Invalid registry format'')))))
       (\<lambda>e. if errorClass e = NotFound
             then ioReturn \<lparr>version = LINK_REGISTRY_VERSION, links = []\<rparr>
             else ioThrow e))"

text \<open>\<^verbatim>\<open>s.lastIndexOf("/")\<close> (\<open>-1\<close> when absent) and \<^verbatim>\<open>s.substring(0, k)\<close>.\<close>

fun lastIndexOf :: "string \<Rightarrow> char \<Rightarrow> int" where
  "lastIndexOf [] c = -1"
| "lastIndexOf (x # xs) c =
     (let k = lastIndexOf xs c in if k \<ge> 0 then k + 1 else if x = c then 0 else -1)"

definition substringTo :: "string \<Rightarrow> int \<Rightarrow> string" where
  "substringTo s k = take (nat k) s"

definition writeLinkRegistry ::
  "'w runtime \<Rightarrow> DeployTarget \<Rightarrow> bool \<Rightarrow> SkillLinkRegistry \<Rightarrow> (unit, 'w) io"
where
  "writeLinkRegistry E tgt userLevel registry =
     ioBind (ioPure (getLinkRegistryPath E tgt userLevel)) (\<lambda>registryPath.
       (let dir = substringTo registryPath (lastIndexOf registryPath (CHR ''/'')) in
        ioBind (ioCall (denoMkdir E dir)) (\<lambda>_.
        ioCall (denoWriteTextFile E registryPath (jsonStringify E registry @ [newline])))))"

definition detectLinkType :: "string \<Rightarrow> LinkType" where
  "detectLinkType source =
     (if startsWith source ''http://'' \<or> startsWith source ''https://''
      then (if includes_str source ''github.com'' \<or> endsWith source ''.git'' then Git else Web)
      else Local)"

record LinkValidation =
  lv_valid :: bool
  lv_error :: "string option"

definition validateLink :: "'w runtime \<Rightarrow> SkillLink \<Rightarrow> (LinkValidation, 'w) io" where
  "validateLink E link =
     (if \<not> nameRegex (link_name link)
      then ioReturn \<lparr>lv_valid = False,
             lv_error = Some ''Link name must contain only lowercase letters, numbers, and hyphens''\<rparr>
      else (case link_type link of
          Local \<Rightarrow>
            ioBind (ioPure (expandHome E (link_source link))) (\<lambda>sourcePath.
            ioCatch
              (ioBind (ioRead (denoStat E sourcePath)) (\<lambda>isDirectory.
                 if \<not> isDirectory
                 then ioReturn \<lparr>lv_valid = False,
                        lv_error = Some ''Local source must be a directory''\<rparr>
                 else
                   ioBind (validateSkillDir E sourcePath) (\<lambda>validation.
                     if \<not> vr_valid validation
                     then ioReturn \<lparr>lv_valid = False,
                            lv_error = Some (''Invalid skill directory: ''
                              @ joinWith '', '' (map message (vr_errors validation)))\<rparr>
                     else ioReturn \<lparr>lv_valid = True, lv_error = None\<rparr>)))
              (\<lambda>e. ioReturn \<lparr>lv_valid = False,
                       lv_error = Some (''Cannot access source: '' @ errorMessage e)\<rparr>))
        | Git \<Rightarrow>
            if \<not> startsWith (link_source link) ''http://''
               \<and> \<not> startsWith (link_source link) ''https://''
               \<and> \<not> startsWith (link_source link) ''git@''
            then ioReturn \<lparr>lv_valid = False,
                   lv_error = Some ''Git source must be a valid URL or SSH address''\<rparr>
            else ioReturn \<lparr>lv_valid = True, lv_error = None\<rparr>
        | Web \<Rightarrow>
            if \<not> startsWith (link_source link) ''http://''
               \<and> \<not> startsWith (link_source link) ''https://''
            then ioReturn \<lparr>lv_valid = False,
                   lv_error = Some ''Web source must be a valid HTTP(S) URL''\<rparr>
            else ioReturn \<lparr>lv_valid = True, lv_error = None\<rparr>))"

text \<open>The optional fourth argument of \<^verbatim>\<open>addLink\<close>.\<close>

record LinkDetails =
  ld_type :: "LinkType option"
  ld_path :: "string option"
  ld_branch :: "string option"
  ld_description :: "string option"
  ld_enabled :: "bool option"

definition addLink ::
  "'w runtime \<Rightarrow> string \<Rightarrow> string \<Rightarrow> LinkOptions \<Rightarrow> LinkDetails option \<Rightarrow> (LinkResult, 'w) io"
where
  "addLink E name source options linkOptions =
     ioCatch
       (ioBind (readLinkRegistry E (opt_target options) (userLevelOrTrue options)) (\<lambda>registry.
          (let existingIndex = findIndex (\<lambda>l. link_name l = name) (links registry) in
           if existingIndex \<noteq> None \<and> \<not> opt_force options
           then ioReturn \<lparr>lr_success = False, lr_link = None,
                  lr_error = Some (''Link '' @ [dquote] @ name @ [dquote]
                                   @ '' already exists. Use --force to overwrite.'')\<rparr>
           else
             (let linkType =
                    (case Option.bind linkOptions ld_type of
                       Some t \<Rightarrow> t | None \<Rightarrow> detectLinkType source);
                  link = \<lparr>link_name = name,
                          link_type = linkType,
                          link_source = source,
                          link_path = Option.bind linkOptions ld_path,
                          link_branch = Option.bind linkOptions ld_branch,
                          link_enabled =
                            (case Option.bind linkOptions ld_enabled of
                               Some b \<Rightarrow> b | None \<Rightarrow> True),
                          link_description = Option.bind linkOptions ld_description\<rparr>
              in
              ioBind (validateLink E link) (\<lambda>validation.
                if \<not> lv_valid validation
                then ioReturn \<lparr>lr_success = False, lr_link = None,
                       lr_error = lv_error validation\<rparr>
                else
                  (let registry' =
                         (case existingIndex of
                            Some i \<Rightarrow> registry\<lparr>links := (links registry)[i := link]\<rparr>
                          | None \<Rightarrow> registry\<lparr>links := links registry @ [link]\<rparr>)
                   in
                   ioBind (writeLinkRegistry E (opt_target options) (userLevelOrTrue options)
                             registry') (\<lambda>_.
                   ioReturn \<lparr>lr_success = True, lr_link = Some link, lr_error = None\<rparr>)))))))
       (\<lambda>e. ioReturn \<lparr>lr_success = False, lr_link = None, lr_error = Some (errorMessage e)\<rparr>)"

definition removeLink :: "'w runtime \<Rightarrow> string \<Rightarrow> LinkOptions \<Rightarrow> (LinkResult, 'w) io" where
  "removeLink E name options =
     ioCatch
       (ioBind (readLinkRegistry E (opt_target options) (userLevelOrTrue options)) (\<lambda>registry.
          (case findIndex (\<lambda>l. link_name l = name) (links registry) of
             None \<Rightarrow>
               ioReturn \<lparr>lr_success = False, lr_link = None,
                 lr_error = Some (''Link '' @ [dquote] @ name @ [dquote] @ '' not found'')\<rparr>
           | Some index \<Rightarrow>
               (let link = links registry ! index;
                    registry' = registry\<lparr>links :=
                      take index (links registry) @ drop (Suc index) (links registry)\<rparr>
                in
                ioBind (writeLinkRegistry E (opt_target options) (userLevelOrTrue options)
                          registry') (\<lambda>_.
                ioReturn \<lparr>lr_success = True, lr_link = Some link, lr_error = None\<rparr>)))))
       (\<lambda>e. ioReturn \<lparr>lr_success = False, lr_link = None, lr_error = Some (errorMessage e)\<rparr>)"

definition listLinks :: "'w runtime \<Rightarrow> LinkOptions \<Rightarrow> (SkillLink list, 'w) io" where
  "listLinks E options =
     ioBind (readLinkRegistry E (opt_target options) (userLevelOrTrue options)) (\<lambda>registry.
     ioReturn (links registry))"

text \<open>
  \<^verbatim>\<open>registry.links.find(...)\<close> returns the link object itself, so the assignment
  \<^verbatim>\<open>link.enabled = enabled\<close> changes the element of \<^verbatim>\<open>registry.links\<close> at the first
  index carrying the name; the registry that is written holds the changed element.
\<close>

definition toggleLink ::
  "'w runtime \<Rightarrow> string \<Rightarrow> bool \<Rightarrow> LinkOptions \<Rightarrow> (LinkResult, 'w) io"
where
  "toggleLink E name enabled options =
     ioCatch
       (ioBind (readLinkRegistry E (opt_target options) (userLevelOrTrue options)) (\<lambda>registry.
          (case findIndex (\<lambda>l. link_name l = name) (links registry) of
             None \<Rightarrow>
               ioReturn \<lparr>lr_success = False, lr_link = None,
                 lr_error = Some (''Link '' @ [dquote] @ name @ [dquote] @ '' not found'')\<rparr>
           | Some index \<Rightarrow>
               (let link = (links registry ! index)\<lparr>link_enabled := enabled\<rparr>;
                    registry' = registry\<lparr>links := (links registry)[index := link]\<rparr>
                in
                ioBind (writeLinkRegistry E (opt_target options) (userLevelOrTrue options)
                          registry') (\<lambda>_.
                ioReturn \<lparr>lr_success = True, lr_link = Some link, lr_error = None\<rparr>)))))
       (\<lambda>e. ioReturn \<lparr>lr_success = False, lr_link = None, lr_error = Some (errorMessage e)\<rparr>)"

text \<open>
  The \<^verbatim>\<open>git clone\<close> of \<^verbatim>\<open>syncLink\<close>: the inner \<^verbatim>\<open>try\<close> block, returning
  \<open>skillDir\<close>. The command is \<^verbatim>\<open>cloneArgs[0]\<close>, that is \<^verbatim>\<open>git\<close>, run with
  \<^verbatim>\<open>cloneArgs.slice(1)\<close>. An optional string used as a condition
  (\<^verbatim>\<open>if (link.branch)\<close>, \<^verbatim>\<open>link.path ? ... : ...\<close>) holds when present and not empty.
\<close>

definition cloneLink :: "'w runtime \<Rightarrow> SkillLink \<Rightarrow> string \<Rightarrow> (string, 'w) io" where
  "cloneLink E link tempDir =
     (let cloneArgs = [''clone'', ''--depth'', ''1''];
          cloneArgs =
            (case link_branch link of
               Some b \<Rightarrow> if b \<noteq> [] then cloneArgs @ [''--branch'', b] else cloneArgs
             | None \<Rightarrow> cloneArgs);
          cloneArgs = cloneArgs @ [link_source link, tempDir]
      in
      ioBind (ioCall (denoCommand E ''git'' cloneArgs)) (\<lambda>cloneOutput.
        if \<not> fst cloneOutput
        then ioThrow (Exn OtherError (''Git clone failed: '' @ snd cloneOutput))
        else ioReturn
          (case link_path link of
             Some p \<Rightarrow> if p \<noteq> [] then tempDir @ ''/'' @ p else tempDir
           | None \<Rightarrow> tempDir)))"

text \<open>
  The deploy step of \<^verbatim>\<open>syncLink\<close> with its \<^verbatim>\<open>finally\<close> block. \<^verbatim>\<open>dryRun\<close> is not
  set in \<^verbatim>\<open>deployOptions\<close>, hence falsy; \<^verbatim>\<open>options.userLevel ? undefined : Deno.cwd()\<close>
  takes an absent \<^verbatim>\<open>userLevel\<close> as falsy.
\<close>

definition deployLinked ::
  "'w runtime \<Rightarrow> nat \<Rightarrow> SkillLink \<Rightarrow> LinkOptions \<Rightarrow> string \<Rightarrow> bool \<Rightarrow> (SyncResult, 'w) io"
where
  "deployLinked E fuel link options skillDir cleanup =
     ioFinally
       (let deployOptions =
              \<lparr>targets = [opt_target options],
               force = opt_force options,
               dryRun = False,
               projectPath =
                 (if opt_userLevel options = Some True then None else Some (denoCwd E))\<rparr>
        in
        ioBind (deploySkill E fuel skillDir deployOptions) (\<lambda>deployResults.
        ioReturn \<lparr>sr_link = Some link,
                  sr_success = list_all success deployResults,
                  sr_deployResults = Some deployResults,
                  sr_error = None\<rparr>))
       (if cleanup
        then ioCatch (ioCall (denoRemove E skillDir True)) (\<lambda>_. ioReturn ())
        else ioReturn ())"

definition syncLink :: "'w runtime \<Rightarrow> nat \<Rightarrow> string \<Rightarrow> LinkOptions \<Rightarrow> (SyncResult, 'w) io" where
  "syncLink E fuel name options =
     ioCatch
       (ioBind (readLinkRegistry E (opt_target options) (userLevelOrTrue options)) (\<lambda>registry.
          (case find (\<lambda>l. link_name l = name) (links registry) of
             None \<Rightarrow>
               ioReturn \<lparr>sr_link = None, sr_success = False, sr_deployResults = None,
                 sr_error = Some (''Link '' @ [dquote] @ name @ [dquote] @ '' not found'')\<rparr>
           | Some link \<Rightarrow>
               if \<not> link_enabled link
               then ioReturn \<lparr>sr_link = Some link, sr_success = False, sr_deployResults = None,
                      sr_error = Some (''Link '' @ [dquote] @ name @ [dquote] @ '' is disabled'')\<rparr>
               else (case link_type link of
                   Local \<Rightarrow>
                     ioBind (ioPure (expandHome E (link_source link))) (\<lambda>skillDir.
                     deployLinked E fuel link options skillDir False)
                 | Git \<Rightarrow>
                     ioBind (ioCall (denoMakeTempDir E ''skill-link-'')) (\<lambda>tempDir.
                     ioBind
                       (ioCatch (cloneLink E link tempDir)
                          (\<lambda>e. ioBind (ioCatch (ioCall (denoRemove E tempDir True))
                                         (\<lambda>_. ioReturn ())) (\<lambda>_.
                                ioThrow e))) (\<lambda>skillDir.
                     deployLinked E fuel link options skillDir True))
                 | Web \<Rightarrow>
                     ioReturn \<lparr>sr_link = Some link, sr_success = False, sr_deployResults = None,
                       sr_error = Some ''Web links are not yet supported for syncing''\<rparr>))))
       (\<lambda>e. ioReturn \<lparr>sr_link = None, sr_success = False, sr_deployResults = None,
                sr_error = Some (errorMessage e)\<rparr>)"

text \<open>The \<^verbatim>\<open>for (const link of registry.links)\<close> loop of \<^verbatim>\<open>syncAllLinks\<close>.\<close>

fun syncLinks ::
  "'w runtime \<Rightarrow> nat \<Rightarrow> LinkOptions \<Rightarrow> SkillLink list \<Rightarrow> (SyncResult list, 'w) io"
where
  "syncLinks E fuel options [] = ioReturn []"
| "syncLinks E fuel options (link # rest) =
     (if \<not> link_enabled link then syncLinks E fuel options rest
      else
        ioBind (syncLink E fuel (link_name link) options) (\<lambda>result.
        ioBind (syncLinks E fuel options rest) (\<lambda>results.
        ioReturn (result # results))))"

definition syncAllLinks :: "'w runtime \<Rightarrow> nat \<Rightarrow> LinkOptions \<Rightarrow> (SyncResult list, 'w) io" where
  "syncAllLinks E fuel options =
     ioBind (readLinkRegistry E (opt_target options) (userLevelOrTrue options)) (\<lambda>registry.
     syncLinks E fuel options (links registry))"


section \<open>A reference environment: an in-memory file system\<close>

text \<open>
  A small concrete instance of the run-time environment, used to run the model on
  concrete inputs. The world is a table from path strings to nodes, a counter for
  temporary directory names, and nothing else; remote repositories are a fixed table
  from URL to a tree of relative paths. Paths are compared as written. The YAML reader
  understands \<^verbatim>\<open>key: value\<close> lines, and the registry is written one link per line
  (a stand-in for \<^verbatim>\<open>JSON.stringify\<close> and \<^verbatim>\<open>JSON.parse\<close>).
\<close>

datatype node = File string | Dir

record memWorld =
  mw_files :: "(string \<times> node) list"
  mw_temps :: nat

definition memLookup :: "memWorld \<Rightarrow> string \<Rightarrow> node option" where
  "memLookup w p = map_of (mw_files w) p"

definition isUnder :: "string \<Rightarrow> string \<Rightarrow> bool" where
  "isUnder p q = startsWith q (p @ ''/'')"

definition notFound :: "string \<Rightarrow> exn" where
  "notFound p = Exn NotFound (''No such file or directory: '' @ p)"

definition memStat :: "string \<Rightarrow> memWorld \<Rightarrow> exn + bool" where
  "memStat p w =
     (case memLookup w p of
        None \<Rightarrow> Inl (notFound p)
      | Some Dir \<Rightarrow> Inr True
      | Some (File c) \<Rightarrow> Inr False)"

definition memReadDir :: "string \<Rightarrow> memWorld \<Rightarrow> exn + (string \<times> bool) list" where
  "memReadDir p w =
     (case memLookup w p of
        None \<Rightarrow> Inl (notFound p)
      | Some (File c) \<Rightarrow> Inl (Exn OtherError (''Not a directory: '' @ p))
      | Some Dir \<Rightarrow>
          Inr (map (\<lambda>(q, n). (drop (length p + 1) q, n = Dir))
                 (filter (\<lambda>(q, n). isUnder p q \<and> CHR ''/'' \<notin> set (drop (length p + 1) q))
                    (mw_files w))))"

definition memReadTextFile :: "string \<Rightarrow> memWorld \<Rightarrow> exn + string" where
  "memReadTextFile p w =
     (case memLookup w p of
        None \<Rightarrow> Inl (notFound p)
      | Some Dir \<Rightarrow> Inl (Exn OtherError (''Is a directory: '' @ p))
      | Some (File c) \<Rightarrow> Inr c)"

definition parentOf :: "string \<Rightarrow> string" where
  "parentOf p = substringTo p (lastIndexOf p (CHR ''/''))"

definition memPut :: "string \<Rightarrow> node \<Rightarrow> memWorld \<Rightarrow> memWorld" where
  "memPut p n w = w\<lparr>mw_files := filter (\<lambda>(q, m). q \<noteq> p) (mw_files w) @ [(p, n)]\<rparr>"

definition memWriteTextFile :: "string \<Rightarrow> string \<Rightarrow> memWorld \<Rightarrow> (exn + unit) \<times> memWorld" where
  "memWriteTextFile p c w =
     (if memLookup w p = Some Dir then (Inl (Exn OtherError (''Is a directory: '' @ p)), w)
      else if parentOf p \<noteq> [] \<and> memLookup w (parentOf p) \<noteq> Some Dir
      then (Inl (notFound p), w)
      else (Inr (), memPut p (File c) w))"

definition memCopyFile :: "string \<Rightarrow> string \<Rightarrow> memWorld \<Rightarrow> (exn + unit) \<times> memWorld" where
  "memCopyFile src dest w =
     (case memLookup w src of
        None \<Rightarrow> (Inl (notFound src), w)
      | Some Dir \<Rightarrow> (Inl (Exn OtherError (''Is a directory: '' @ src)), w)
      | Some (File c) \<Rightarrow> memWriteTextFile dest c w)"

definition memRemove :: "string \<Rightarrow> bool \<Rightarrow> memWorld \<Rightarrow> (exn + unit) \<times> memWorld" where
  "memRemove p recursive w =
     (case memLookup w p of
        None \<Rightarrow> (Inl (notFound p), w)
      | Some n \<Rightarrow>
          if n = Dir \<and> \<not> recursive \<and> list_ex (\<lambda>(q, m). isUnder p q) (mw_files w)
          then (Inl (Exn OtherError (''Directory not empty: '' @ p)), w)
          else (Inr (), w\<lparr>mw_files := filter (\<lambda>(q, m). q \<noteq> p \<and> \<not> isUnder p q) (mw_files w)\<rparr>))"

text \<open>The path itself and every proper prefix that ends before a separator.\<close>

definition ancestorsOf :: "string \<Rightarrow> string list" where
  "ancestorsOf p = map (\<lambda>i. take i p) (filter (\<lambda>i. p ! i = CHR ''/'') [1 ..< length p]) @ [p]"

fun memMkdirs :: "string list \<Rightarrow> memWorld \<Rightarrow> (exn + unit) \<times> memWorld" where
  "memMkdirs [] w = (Inr (), w)"
| "memMkdirs (p # ps) w =
     (case memLookup w p of
        Some (File c) \<Rightarrow> (Inl (Exn AlreadyExists (''File exists: '' @ p)), w)
      | Some Dir \<Rightarrow> memMkdirs ps w
      | None \<Rightarrow> memMkdirs ps (memPut p Dir w))"

definition memMkdir :: "string \<Rightarrow> memWorld \<Rightarrow> (exn + unit) \<times> memWorld" where
  "memMkdir p w = (if p = [] then (Inl (notFound p), w) else memMkdirs (ancestorsOf p) w)"

definition memMakeTempDir :: "string \<Rightarrow> memWorld \<Rightarrow> (exn + string) \<times> memWorld" where
  "memMakeTempDir prefix w =
     (let p = ''/tmp/'' @ prefix @ showNat (mw_temps w) in
      case memMkdir p (w\<lparr>mw_temps := Suc (mw_temps w)\<rparr>) of
        (Inl e, w1) \<Rightarrow> (Inl e, w1)
      | (Inr u, w1) \<Rightarrow> (Inr p, w1))"

text \<open>
  \<^verbatim>\<open>git clone ... <source> <dir>\<close>: the last two arguments name the repository and
  the directory; a known repository is unpacked below the directory.
\<close>

definition memCommand ::
  "(string \<times> (string \<times> node) list) list \<Rightarrow> string \<Rightarrow> string list \<Rightarrow> memWorld
     \<Rightarrow> (exn + bool \<times> string) \<times> memWorld"
where
  "memCommand remotes cmd args w =
     (if cmd \<noteq> ''git'' then (Inl (notFound cmd), w)
      else (case rev args of
          dest # source # others \<Rightarrow>
            (case map_of remotes source of
               None \<Rightarrow> (Inr (False, ''fatal: repository not found''), w)
             | Some tree \<Rightarrow>
                 (Inr (True, []),
                  w\<lparr>mw_files := mw_files w @ map (\<lambda>(q, n). (dest @ ''/'' @ q, n)) tree\<rparr>))
        | _ \<Rightarrow> (Inr (False, ''usage: git clone''), w)))"

definition memJoin :: "string \<Rightarrow> jsval \<Rightarrow> exn + string" where
  "memJoin a v =
     (case v of
        JStr b \<Rightarrow> Inr (if a = [] then b else if b = [] then a else a @ ''/'' @ b)
      | _ \<Rightarrow> Inl (Exn OtherError ''Path must be a string''))"

text \<open>Splitting at the first occurrence of a separator character.\<close>

fun splitOn :: "char \<Rightarrow> string \<Rightarrow> string list" where
  "splitOn sep [] = [[]]"
| "splitOn sep (c # cs) =
     (if c = sep then [] # splitOn sep cs
      else (case splitOn sep cs of [] \<Rightarrow> [[c]] | l # ls \<Rightarrow> (c # l) # ls))"

fun memYamlLines :: "string list \<Rightarrow> exn + (string \<times> jsval) list" where
  "memYamlLines [] = Inr []"
| "memYamlLines (l # ls) =
     (if l = [] then memYamlLines ls
      else (case splitOn (CHR '':'') l of
          k # v # vs \<Rightarrow>
            (case memYamlLines ls of
               Inl e \<Rightarrow> Inl e
             | Inr kvs \<Rightarrow> Inr ((k, JStr (trim (joinWith '':'' (v # vs)))) # kvs))
        | _ \<Rightarrow> Inl (Exn OtherError (''bad YAML line: '' @ l))))"

definition memParseYaml :: "string \<Rightarrow> exn + (string \<times> jsval) list" where
  "memParseYaml t = memYamlLines (splitLines t)"

definition showOpt :: "string option \<Rightarrow> string" where
  "showOpt s = (case s of None \<Rightarrow> ''-'' | Some t \<Rightarrow> ''+'' @ t)"

definition readOpt :: "string \<Rightarrow> string option" where
  "readOpt s = (case s of [] \<Rightarrow> None | c # t \<Rightarrow> if c = CHR ''+'' then Some t else None)"

definition showLinkType :: "LinkType \<Rightarrow> string" where
  "showLinkType t = (case t of Local \<Rightarrow> ''local'' | Git \<Rightarrow> ''git'' | Web \<Rightarrow> ''web'')"

definition readLinkType :: "string \<Rightarrow> LinkType" where
  "readLinkType s = (if s = ''git'' then Git else if s = ''web'' then Web else Local)"

definition showLink :: "SkillLink \<Rightarrow> string" where
  "showLink l =
     joinWith ''|'' [link_name l, showLinkType (link_type l), link_source l,
       showOpt (link_path l), showOpt (link_branch l),
       (if link_enabled l then ''true'' else ''false''), showOpt (link_description l)]"

definition readLink :: "string \<Rightarrow> SkillLink option" where
  "readLink s =
     (case splitOn (CHR ''|'') s of
        [n, t, src, p, b, e, d] \<Rightarrow>
          Some \<lparr>link_name = n, link_type = readLinkType t, link_source = src,
                link_path = readOpt p, link_branch = readOpt b,
                link_enabled = (e = ''true''), link_description = readOpt d\<rparr>
      | _ \<Rightarrow> None)"

fun readLinks :: "string list \<Rightarrow> SkillLink list option" where
  "readLinks [] = Some []"
| "readLinks (l # ls) =
     (if l = [] then readLinks ls
      else (case readLink l of
          None \<Rightarrow> None
        | Some x \<Rightarrow> (case readLinks ls of None \<Rightarrow> None | Some xs \<Rightarrow> Some (x # xs))))"

definition memJsonStringify :: "SkillLinkRegistry \<Rightarrow> string" where
  "memJsonStringify r = joinWith [newline] (version r # map showLink (links r))"

definition memJsonParse :: "string \<Rightarrow> exn + ParsedRegistry" where
  "memJsonParse t =
     (case splitLines t of
        [] \<Rightarrow> Inl (Exn OtherError ''Unexpected end of JSON input'')
      | v # ls \<Rightarrow>
          if v = [] then Inl (Exn OtherError ''Unexpected end of JSON input'')
          else Inr \<lparr>parsedVersion = Some v, parsedLinks = readLinks ls\<rparr>)"

definition memRuntime :: "(string \<times> (string \<times> node) list) list \<Rightarrow> memWorld runtime" where
  "memRuntime remotes =
     \<lparr>envGet = (\<lambda>k. if k = ''HOME'' then Some ''/home/user'' else None),
      denoCwd = ''/work'',
      pathJoin = memJoin,
      parseYaml = memParseYaml,
      jsonParse = memJsonParse,
      jsonStringify = memJsonStringify,
      denoStat = memStat,
      denoReadDir = memReadDir,
      denoReadTextFile = memReadTextFile,
      denoRemove = memRemove,
      denoMkdir = memMkdir,
      denoCopyFile = memCopyFile,
      denoWriteTextFile = memWriteTextFile,
      denoMakeTempDir = memMakeTempDir,
      denoCommand = memCommand remotes\<rparr>"

text \<open>A manifest, a skill directory holding it, and a repository holding that directory.\<close>

definition demoManifest :: string where
  "demoManifest =
     ''---'' @ [newline] @ ''name: demo'' @ [newline] @ ''description: A demo skill'' @ [newline]
     @ ''---'' @ [newline] @ [newline] @ ''Use the demo.'' @ [newline]"

definition demoWorld :: memWorld where
  "demoWorld =
     \<lparr>mw_files = [(''/src'', Dir), (''/src/demo'', Dir), (''/src/demo/SKILL.md'', File demoManifest),
                  (''/src/demo/notes'', Dir), (''/src/demo/notes/a.txt'', File ''alpha'')],
      mw_temps = 0\<rparr>"

definition demoRemotes :: "(string \<times> (string \<times> node) list) list" where
  "demoRemotes =
     [(''https://github.com/acme/skills.git'',
       [(''README.md'', File ''skills''), (''skills'', Dir), (''skills/demo'', Dir),
        (''skills/demo/SKILL.md'', File demoManifest)]),
      (''https://github.com/acme/demo.git'', [(''SKILL.md'', File demoManifest)])]"

definition demoRuntime :: "memWorld runtime" where
  "demoRuntime = memRuntime demoRemotes"

section \<open>Definitions used to state the properties\<close>

subsection \<open>The validation rules, one function per rule\<close>

text \<open>
  Each rule reads its own field only and returns the errors it raises; the rules are
  collected in the order in which the validator reports them.
\<close>

definition rule_name_required :: "(string \<times> jsval) list \<Rightarrow> ValidationError list" where
  "rule_name_required md =
     (if falsy (getProp md ''name'') then [mkError ''name'' ''Required field is missing''] else [])"

definition rule_name_string :: "(string \<times> jsval) list \<Rightarrow> ValidationError list" where
  "rule_name_string md =
     (if \<not> falsy (getProp md ''name'') \<and> \<not> isString (getProp md ''name'')
      then [mkError ''name'' ''Must be a string''] else [])"

definition rule_name_length :: "(string \<times> jsval) list \<Rightarrow> ValidationError list" where
  "rule_name_length md =
     (case getProp md ''name'' of
        JStr s \<Rightarrow>
          (if length s > 64
           then [mkError ''name'' (''Must be 64 characters or less (got '' @ showNat (length s) @ '')'')]
           else [])
      | _ \<Rightarrow> [])"

definition rule_name_single_line :: "(string \<times> jsval) list \<Rightarrow> ValidationError list" where
  "rule_name_single_line md =
     (case getProp md ''name'' of
        JStr s \<Rightarrow>
          (if newline \<in> set s then [mkError ''name'' ''Must be a single line (no newlines)''] else [])
      | _ \<Rightarrow> [])"

definition rule_name_format :: "(string \<times> jsval) list \<Rightarrow> ValidationError list" where
  "rule_name_format md =
     (case getProp md ''name'' of
        JStr s \<Rightarrow>
          (if s \<noteq> [] \<and> \<not> list_all nameChar s
           then [mkError ''name'' ''Must contain only lowercase letters, numbers, and hyphens'']
           else [])
      | _ \<Rightarrow> [])"

definition rule_description_required :: "(string \<times> jsval) list \<Rightarrow> ValidationError list" where
  "rule_description_required md =
     (if falsy (getProp md ''description'')
      then [mkError ''description'' ''Required field is missing''] else [])"

definition rule_description_string :: "(string \<times> jsval) list \<Rightarrow> ValidationError list" where
  "rule_description_string md =
     (if \<not> falsy (getProp md ''description'') \<and> \<not> isString (getProp md ''description'')
      then [mkError ''description'' ''Must be a string''] else [])"

definition rule_description_length :: "(string \<times> jsval) list \<Rightarrow> ValidationError list" where
  "rule_description_length md =
     (case getProp md ''description'' of
        JStr s \<Rightarrow>
          (if length s > 500
           then [mkError ''description'' (''Must be 500 characters or less (got '' @ showNat (length s) @ '')'')]
           else [])
      | _ \<Rightarrow> [])"

definition rule_description_single_line :: "(string \<times> jsval) list \<Rightarrow> ValidationError list" where
  "rule_description_single_line md =
     (case getProp md ''description'' of
        JStr s \<Rightarrow>
          (if newline \<in> set s
           then [mkError ''description'' ''Must be a single line (no newlines)''] else [])
      | _ \<Rightarrow> [])"

definition rule_string_list :: "string \<Rightarrow> (string \<times> jsval) list \<Rightarrow> ValidationError list" where
  "rule_string_list f md =
     (case getProp md f of
        JUndefined \<Rightarrow> []
      | JArr items \<Rightarrow>
          concat (map (\<lambda>i. if isString (items ! i) then []
                            else [mkError f (''Item at index '' @ showNat i @ '' must be a string'')])
                  [0 ..< length items])
      | _ \<Rightarrow> [mkError f ''Must be an array''])"

definition rule_model_string :: "(string \<times> jsval) list \<Rightarrow> ValidationError list" where
  "rule_model_string md =
     (case getProp md ''model'' of
        JUndefined \<Rightarrow> []
      | JStr s \<Rightarrow> []
      | _ \<Rightarrow> [mkError ''model'' ''Must be a string''])"

definition allRules :: "((string \<times> jsval) list \<Rightarrow> ValidationError list) list" where
  "allRules =
     [rule_name_required, rule_name_string, rule_name_length, rule_name_single_line,
      rule_name_format,
      rule_description_required, rule_description_string, rule_description_length,
      rule_description_single_line,
      rule_string_list ''allowed-tools'', rule_model_string, rule_string_list ''skills'']"

definition collectViolations :: "(string \<times> jsval) list \<Rightarrow> ValidationError list" where
  "collectViolations md = concat (map (\<lambda>rule. rule md) allRules)"

fun optStringList :: "jsval \<Rightarrow> bool" where
  "optStringList JUndefined = True"
| "optStringList (JArr items) = list_all isString items"
| "optStringList v = False"

fun optString :: "jsval \<Rightarrow> bool" where
  "optString JUndefined = True"
| "optString (JStr s) = True"
| "optString v = False"

subsection \<open>The parts of a converted document\<close>

definition cursorHeading :: "SkillFile \<Rightarrow> string" where
  "cursorHeading skill =
     ''# '' @ jsToString (getProp (metadata skill) ''name'') @ [newline] @ [newline]
     @ ''## Description'' @ [newline]
     @ joinElement (getProp (metadata skill) ''description'') @ [newline] @ [newline]"

definition genericSection :: string where
  "genericSection = ''## Rule: Skill Instructions'' @ [newline] @ [newline]"

subsection \<open>Deployment destinations\<close>

text \<open>
  The destination a target resolves for a skill name, as \<open>deployToClaudeOrCodex\<close> and
  \<open>deployToCursor\<close> compute it; the message of the overwrite guard; the body of the loop
  over the targets.
\<close>

definition destinationOf :: "'w runtime \<Rightarrow> DeployTarget \<Rightarrow> jsval \<Rightarrow> exn + string" where
  "destinationOf E tgt skillName =
     (if tgt = Cursor then Inr TARGET_PATHS_cursor_project
      else (case expandHome E (getTargetPath tgt True) of
              Inl e \<Rightarrow> Inl e
            | Inr expandedBase \<Rightarrow> pathJoin E expandedBase skillName))"

definition alreadyExistsMessage :: "DeployTarget \<Rightarrow> string \<Rightarrow> string" where
  "alreadyExistsMessage tgt p =
     (if tgt = Cursor then p @ '' already exists. Use --force to overwrite.''
      else ''Skill already exists at '' @ p @ ''. Use --force to overwrite.'')"

definition deployOne ::
  "'w runtime \<Rightarrow> nat \<Rightarrow> string \<Rightarrow> jsval \<Rightarrow> DeployOptions \<Rightarrow> DeployTarget \<Rightarrow> (DeployResult, 'w) io"
where
  "deployOne E fuel skillDir skillName options tgt =
     (if tgt = Cursor then deployToCursor E skillDir options
      else deployToClaudeOrCodex E fuel skillDir tgt skillName options)"

subsection \<open>Worlds of the reference environment\<close>

definition cursorFileWorld :: memWorld where
  "cursorFileWorld = demoWorld\<lparr>mw_files := mw_files demoWorld @ [(''.cursorrules'', File ''old rules'')]\<rparr>"


definition deployedWorld :: memWorld where
  "deployedWorld = demoWorld\<lparr>mw_files := mw_files demoWorld @
     [(''/home'', Dir), (''/home/user'', Dir), (''/home/user/.claude'', Dir),
      (''/home/user/.claude/skills'', Dir), (''/home/user/.claude/skills/demo'', Dir),
      (''/home/user/.claude/skills/demo/SKILL.md'', File ''first deployment'')]\<rparr>"




definition undeployedWorld :: memWorld where
  "undeployedWorld = demoWorld\<lparr>mw_files := mw_files demoWorld @
     [(''/home'', Dir), (''/home/user'', Dir), (''/home/user/.claude'', Dir),
      (''/home/user/.claude/skills'', Dir)]\<rparr>"

definition demoSkill :: SkillFile where
  "demoSkill =
     \<lparr>metadata = [(''name'', JStr ''demo''), (''description'', JStr ''A demo skill'')],
      content = [newline] @ ''Use the demo.'' @ [newline],
      raw = demoManifest\<rparr>"

subsection \<open>Registry updates and the per-link sync\<close>

text \<open>
  The link record \<open>addLink\<close> builds from its arguments; the registry list after an
  add (replace at the first index carrying the name, else append) and after a remove (the
  element at the first index carrying the name dropped); and one \<open>syncLink\<close> per name,
  in order, collecting every result.
\<close>

definition newLink :: "string \<Rightarrow> string \<Rightarrow> LinkDetails option \<Rightarrow> SkillLink" where
  "newLink name source linkOptions =
     \<lparr>link_name = name,
      link_type = (case Option.bind linkOptions ld_type of
                     Some t \<Rightarrow> t | None \<Rightarrow> detectLinkType source),
      link_source = source,
      link_path = Option.bind linkOptions ld_path,
      link_branch = Option.bind linkOptions ld_branch,
      link_enabled = (case Option.bind linkOptions ld_enabled of Some b \<Rightarrow> b | None \<Rightarrow> True),
      link_description = Option.bind linkOptions ld_description\<rparr>"

definition upsertLink :: "SkillLink \<Rightarrow> SkillLink list \<Rightarrow> SkillLink list" where
  "upsertLink link ls =
     (case findIndex (\<lambda>l. link_name l = link_name link) ls of
        Some i \<Rightarrow> ls[i := link]
      | None \<Rightarrow> ls @ [link])"

definition dropLink :: "string \<Rightarrow> SkillLink list \<Rightarrow> SkillLink list" where
  "dropLink name ls =
     (case findIndex (\<lambda>l. link_name l = name) ls of
        Some i \<Rightarrow> take i ls @ drop (Suc i) ls
      | None \<Rightarrow> ls)"

fun syncEach :: "'w runtime \<Rightarrow> nat \<Rightarrow> LinkOptions \<Rightarrow> string list \<Rightarrow> (SyncResult list, 'w) io" where
  "syncEach E fuel options [] = ioReturn []"
| "syncEach E fuel options (name # names) =
     ioBind (syncLink E fuel name options) (\<lambda>result.
     ioBind (syncEach E fuel options names) (\<lambda>results.
     ioReturn (result # results)))"

subsection \<open>Registries of the reference environment\<close>

definition demoLink :: SkillLink where
  "demoLink =
     \<lparr>link_name = ''x'', link_type = Git, link_source = ''https://github.com/acme/skills.git'',
      link_path = Some ''skills/demo'', link_branch = None, link_enabled = True,
      link_description = None\<rparr>"

definition registryWorld :: "SkillLink list \<Rightarrow> memWorld" where
  "registryWorld ls = demoWorld\<lparr>mw_files := mw_files demoWorld @
     [(''/home'', Dir), (''/home/user'', Dir), (''/home/user/.claude'', Dir),
      (''/home/user/.claude/skill-links.json'',
       File (memJsonStringify \<lparr>version = LINK_REGISTRY_VERSION, links = ls\<rparr> @ [newline]))]\<rparr>"

definition linkedWorld :: memWorld where
  "linkedWorld = registryWorld [demoLink]"

definition demoLinkOptions :: LinkOptions where
  "demoLinkOptions = \<lparr>opt_target = Claude, opt_userLevel = None, opt_force = False\<rparr>"

definition webLink :: SkillLink where
  "webLink =
     \<lparr>link_name = ''a'', link_type = Web, link_source = ''https://example.org/skill'',
      link_path = None, link_branch = None, link_enabled = True, link_description = None\<rparr>"

definition disabledLink :: SkillLink where
  "disabledLink =
     \<lparr>link_name = ''b'', link_type = Local, link_source = ''/src/demo'',
      link_path = None, link_branch = None, link_enabled = False, link_description = None\<rparr>"

definition demoRegistry :: SkillLinkRegistry where
  "demoRegistry = \<lparr>version = LINK_REGISTRY_VERSION, links = [demoLink]\<rparr>"

definition localLink :: SkillLink where
  "localLink = newLink ''x'' ''/src/demo'' None"

definition otherLink :: SkillLink where
  "otherLink = newLink ''y'' ''/src/demo'' None"

definition forcedLinkOptions :: LinkOptions where
  "forcedLinkOptions = \<lparr>opt_target = Claude, opt_userLevel = None, opt_force = True\<rparr>"

definition threeLinksWorld :: memWorld where
  "threeLinksWorld = registryWorld [webLink, disabledLink, demoLink]"

definition rootLink :: SkillLink where
  "rootLink =
     \<lparr>link_name = ''r'', link_type = Git, link_source = ''https://github.com/acme/demo.git'',
      link_path = None, link_branch = Some ''main'', link_enabled = True,
      link_description = None\<rparr>"

definition missingLink :: SkillLink where
  "missingLink =
     \<lparr>link_name = ''m'', link_type = Git, link_source = ''https://github.com/acme/missing.git'',
      link_path = Some ''skills/demo'', link_branch = None, link_enabled = True,
      link_description = None\<rparr>"

section \<open>Manifest validation: properties\<close>

lemma showNat_64: "showNat 64 = ''64''"
  by code_simp

lemma showNat_500: "showNat 500 = ''500''"
  by code_simp

lemma includes_str_single: "includes_str s [c] = (c \<in> set s)"
  by (induction s) auto

lemma itemErrors_index:
  "itemErrors f k items =
     concat (map (\<lambda>i. if isString (items ! i) then []
                       else [mkError f (''Item at index '' @ showNat (k + i) @ '' must be a string'')])
             [0 ..< length items])"
proof (induction items arbitrary: k)
  case Nil
  then show ?case by simp
next
  case (Cons item items)
  have shift: "[0 ..< length (item # items)] = 0 # map Suc [0 ..< length items]"
    by (simp add: upt_conv_Cons map_Suc_upt del: upt_Suc)
  show ?case
    unfolding shift by (simp add: Cons.IH [of "Suc k"] comp_def del: upt_Suc cong: if_cong)
qed

lemma itemErrors_from_0:
  "itemErrors f 0 items =
     concat (map (\<lambda>i. if isString (items ! i) then []
                       else [mkError f (''Item at index '' @ showNat i @ '' must be a string'')])
             [0 ..< length items])"
  using itemErrors_index [of f 0 items] by (simp cong: if_cong)

lemma itemErrors_empty: "itemErrors f k items = [] \<longleftrightarrow> list_all isString items"
  by (induction items arbitrary: k) auto

lemma validateMetadata_collect: "validateMetadata md = collectViolations md"
proof -
  define nameSeg where "nameSeg = (\<lambda>errors.
           (if falsy (getProp md ''name'')
            then errors @ [mkError ''name'' ''Required field is missing'']
            else (case getProp md ''name'' of
                JStr name \<Rightarrow>
                  (let errors =
                         (if length name > LIMITS_name
                          then errors @ [mkError ''name''
                                 (''Must be '' @ showNat LIMITS_name @ '' characters or less (got ''
                                    @ showNat (length name) @ '')'')]
                          else errors);
                       errors =
                         (if includes_str name [newline]
                          then errors @ [mkError ''name'' ''Must be a single line (no newlines)'']
                          else errors);
                       errors =
                         (if \<not> nameRegex name
                          then errors @ [mkError ''name''
                                 ''Must contain only lowercase letters, numbers, and hyphens'']
                          else errors)
                   in errors)
              | _ \<Rightarrow> errors @ [mkError ''name'' ''Must be a string''])))"
  define descSeg where "descSeg = (\<lambda>errors.
           (if falsy (getProp md ''description'')
            then errors @ [mkError ''description'' ''Required field is missing'']
            else (case getProp md ''description'' of
                JStr description \<Rightarrow>
                  (let errors =
                         (if length description > LIMITS_description
                          then errors @ [mkError ''description''
                                 (''Must be '' @ showNat LIMITS_description @ '' characters or less (got ''
                                    @ showNat (length description) @ '')'')]
                          else errors);
                       errors =
                         (if includes_str description [newline]
                          then errors @ [mkError ''description'' ''Must be a single line (no newlines)'']
                          else errors)
                   in errors)
              | _ \<Rightarrow> errors @ [mkError ''description'' ''Must be a string''])))"
  define listSeg where "listSeg = (\<lambda>f errors.
           (if getProp md f \<noteq> JUndefined
            then (case getProp md f of
                JArr tools \<Rightarrow> errors @ itemErrors f 0 tools
              | _ \<Rightarrow> errors @ [mkError f ''Must be an array''])
            else errors))"
  define modelSeg where "modelSeg = (\<lambda>errors.
           (if getProp md ''model'' \<noteq> JUndefined \<and> \<not> isString (getProp md ''model'')
            then errors @ [mkError ''model'' ''Must be a string'']
            else errors))"
  have chain: "validateMetadata md =
      listSeg ''skills'' (modelSeg (listSeg ''allowed-tools'' (descSeg (nameSeg []))))"
    unfolding validateMetadata_def nameSeg_def descSeg_def listSeg_def modelSeg_def
    by (simp only: Let_def)
  have n: "nameSeg e = e @ rule_name_required md @ rule_name_string md @ rule_name_length md
             @ rule_name_single_line md @ rule_name_format md" for e
    by (cases "getProp md ''name''")
       (simp_all add: nameSeg_def rule_name_required_def rule_name_string_def
          rule_name_length_def rule_name_single_line_def rule_name_format_def
          includes_str_single nameRegex_def LIMITS_name_def showNat_64)
  have d: "descSeg e = e @ rule_description_required md @ rule_description_string md
             @ rule_description_length md @ rule_description_single_line md" for e
    by (cases "getProp md ''description''")
       (simp_all add: descSeg_def rule_description_required_def rule_description_string_def
          rule_description_length_def rule_description_single_line_def
          includes_str_single LIMITS_description_def showNat_500)
  have l: "listSeg f e = e @ rule_string_list f md" for f e
    by (cases "getProp md f") (simp_all add: listSeg_def rule_string_list_def itemErrors_from_0)
  have m: "modelSeg e = e @ rule_model_string md" for e
    by (cases "getProp md ''model''") (simp_all add: modelSeg_def rule_model_string_def)
  show ?thesis
    unfolding chain n d l m by (simp add: collectViolations_def allRules_def)
qed


lemma rule_string_list_field: "e \<in> set (rule_string_list f md) \<Longrightarrow> field e = f"
  by (cases "getProp md f") (auto simp: rule_string_list_def mkError_def split: if_splits)

lemma filter_rule_string_list:
  "f \<noteq> g \<Longrightarrow> filter (\<lambda>e. field e = g) (rule_string_list f md) = []"
  by (auto simp: filter_empty_conv dest: rule_string_list_field)

lemma rule_string_list_ok: "optStringList (getProp md f) \<Longrightarrow> rule_string_list f md = []"
  by (cases "getProp md f") (auto simp: rule_string_list_def list_all_length)

lemma nameChar_newline: "\<not> nameChar newline"
  by (simp add: nameChar_def newline_def)

text \<open>
  C7, as amended. (1) A header whose name is a string matching the name pattern with at
  most 64 characters, whose description is a non-empty single-line string of at most 500
  characters, and whose optional fields are absent or well-typed (allowed-tools and
  skills: arrays of strings; model: a string) has no validation error. (2) A header
  without a name carries exactly one error for the field name, and (3) a header without a
  description exactly one for the field description. (4) The errors reported are exactly
  the errors of all rules, each rule evaluated on its own field independently of the
  others, in the validator's order.
\<close>

theorem validateMetadata_rules:
  "(getProp md1 ''name'' = JStr n \<and> nameRegex n \<and> length n \<le> 64 \<and>
    getProp md1 ''description'' = JStr d \<and> d \<noteq> [] \<and> \<not> includes_str d [newline] \<and> length d \<le> 500 \<and>
    optStringList (getProp md1 ''allowed-tools'') \<and> optString (getProp md1 ''model'') \<and>
    optStringList (getProp md1 ''skills'')
      \<longrightarrow> validateMetadata md1 = [])
   \<and> (getProp md2 ''name'' = JUndefined \<longrightarrow>
        filter (\<lambda>e. field e = ''name'') (validateMetadata md2)
          = [mkError ''name'' ''Required field is missing''])
   \<and> (getProp md3 ''description'' = JUndefined \<longrightarrow>
        filter (\<lambda>e. field e = ''description'') (validateMetadata md3)
          = [mkError ''description'' ''Required field is missing''])
   \<and> validateMetadata md4 = collectViolations md4"
proof (intro conjI impI)
  assume a: "getProp md1 ''name'' = JStr n \<and> nameRegex n \<and> length n \<le> 64 \<and>
    getProp md1 ''description'' = JStr d \<and> d \<noteq> [] \<and> \<not> includes_str d [newline] \<and> length d \<le> 500 \<and>
    optStringList (getProp md1 ''allowed-tools'') \<and> optString (getProp md1 ''model'') \<and>
    optStringList (getProp md1 ''skills'')"
  then have "newline \<notin> set n"
    using nameChar_newline by (auto simp: nameRegex_def list_all_iff)
  moreover have "rule_model_string md1 = []"
    using a by (cases "getProp md1 ''model''") (simp_all add: rule_model_string_def)
  ultimately show "validateMetadata md1 = []"
    using a
    by (simp add: validateMetadata_collect collectViolations_def allRules_def
        rule_name_required_def rule_name_string_def rule_name_length_def
        rule_name_single_line_def rule_name_format_def rule_description_required_def
        rule_description_string_def rule_description_length_def
        rule_description_single_line_def rule_string_list_ok includes_str_single nameRegex_def)
next
  assume "getProp md2 ''name'' = JUndefined"
  then show "filter (\<lambda>e. field e = ''name'') (validateMetadata md2)
          = [mkError ''name'' ''Required field is missing'']"
    by (simp add: validateMetadata_collect collectViolations_def allRules_def
        rule_name_required_def rule_name_string_def rule_name_length_def
        rule_name_single_line_def rule_name_format_def rule_description_required_def
        rule_description_string_def rule_description_length_def
        rule_description_single_line_def rule_model_string_def filter_rule_string_list
        mkError_def split: jsval.splits)
next
  assume "getProp md3 ''description'' = JUndefined"
  then show "filter (\<lambda>e. field e = ''description'') (validateMetadata md3)
          = [mkError ''description'' ''Required field is missing'']"
    by (simp add: validateMetadata_collect collectViolations_def allRules_def
        rule_name_required_def rule_name_string_def rule_name_length_def
        rule_name_single_line_def rule_name_format_def rule_description_required_def
        rule_description_string_def rule_description_length_def
        rule_description_single_line_def rule_model_string_def filter_rule_string_list
        mkError_def split: jsval.splits)
next
  show "validateMetadata md4 = collectViolations md4"
    by (rule validateMetadata_collect)
qed

theorem validateMetadata_rules_witness:
  "validateMetadata [(''name'', JStr ''test-skill''), (''description'', JStr ''A test skill''),
       (''allowed-tools'', JArr [JStr ''Read'']), (''model'', JStr ''sonnet'')] = []
   \<and> filter (\<lambda>e. field e = ''name'') (validateMetadata [(''description'', JStr ''A test skill'')])
        = [mkError ''name'' ''Required field is missing'']
   \<and> filter (\<lambda>e. field e = ''description'') (validateMetadata [(''name'', JStr ''Test_Skill'')])
        = [mkError ''description'' ''Required field is missing'']"
  using validateMetadata_rules [of
      "[(''name'', JStr ''test-skill''), (''description'', JStr ''A test skill''),
        (''allowed-tools'', JArr [JStr ''Read'']), (''model'', JStr ''sonnet'')]"
      "''test-skill''" "''A test skill''"
      "[(''description'', JStr ''A test skill'')]"
      "[(''name'', JStr ''Test_Skill'')]" "[]"]
  by (simp add: getProp_def nameRegex_def nameChar_def newline_def)

text \<open>
  C7 as stated fails: a header with a valid name and description still has an error when
  an optional field is ill-typed (here model is a number), and an empty description, a
  single-line string of length 0, is reported as missing.
\<close>

theorem validateMetadata_counterexample:
  "nameRegex ''a'' \<and> length ''a'' \<le> 64 \<and> \<not> includes_str ''d'' [newline] \<and> length ''d'' \<le> 500
   \<and> validateMetadata [(''name'', JStr ''a''), (''description'', JStr ''d''), (''model'', JNum 5)]
       = [mkError ''model'' ''Must be a string'']
   \<and> \<not> includes_str [] [newline] \<and> length ([] :: string) \<le> 500
   \<and> validateMetadata [(''name'', JStr ''a''), (''description'', JStr [])]
       = [mkError ''description'' ''Required field is missing'']"
  by (simp add: validateMetadata_def getProp_def nameRegex_def nameChar_def newline_def
      LIMITS_name_def LIMITS_description_def)


section \<open>Format converter: properties\<close>

lemma startsWith_iff: "startsWith s p \<longleftrightarrow> (\<exists>c. s = p @ c)"
proof
  assume "startsWith s p"
  then have "s = p @ drop (length p) s"
    by (metis append_take_drop_id startsWith.simps)
  then show "\<exists>c. s = p @ c" ..
next
  assume "\<exists>c. s = p @ c"
  then show "startsWith s p" by auto
qed

lemma includes_str_iff: "includes_str s p \<longleftrightarrow> (\<exists>a c. s = a @ p @ c)"
proof (induction s)
  case Nil
  then show ?case by simp
next
  case (Cons x s)
  have "(\<exists>a c. x # s = a @ p @ c) \<longleftrightarrow> (\<exists>c. x # s = p @ c) \<or> (\<exists>a c. s = a @ p @ c)"
  proof
    assume "\<exists>a c. x # s = a @ p @ c"
    then obtain a c where ac: "x # s = a @ p @ c" by blast
    show "(\<exists>c. x # s = p @ c) \<or> (\<exists>a c. s = a @ p @ c)"
    proof (cases a)
      case Nil
      with ac show ?thesis by auto
    next
      case (Cons y a')
      with ac have "s = a' @ p @ c" by simp
      then show ?thesis by blast
    qed
  next
    assume "(\<exists>c. x # s = p @ c) \<or> (\<exists>a c. s = a @ p @ c)"
    then show "\<exists>a c. x # s = a @ p @ c"
    proof
      assume "\<exists>c. x # s = p @ c"
      then obtain c where "x # s = [] @ p @ c" by auto
      then show ?thesis by blast
    next
      assume "\<exists>a c. s = a @ p @ c"
      then obtain a c where "x # s = (x # a) @ p @ c" by auto
      then show ?thesis by blast
    qed
  qed
  with Cons.IH show ?case
    by (simp only: includes_str.simps startsWith_iff)
qed

lemma includes_str_append: "includes_str b p \<Longrightarrow> includes_str (a @ b @ c) p"
proof -
  assume "includes_str b p"
  then obtain u v where "b = u @ p @ v" by (auto simp: includes_str_iff)
  then have "a @ b @ c = (a @ u) @ p @ (v @ c)" by simp
  then show ?thesis unfolding includes_str_iff by blast
qed

lemma trim_decomposition: "\<exists>a b. s = a @ trim s @ b"
proof -
  have 1: "s = takeWhile isWhiteSpace s @ trimStart s"
    by (simp add: trimStart_def)
  have "rev (takeWhile isWhiteSpace (rev (trimStart s)) @ dropWhile isWhiteSpace (rev (trimStart s)))
          = trimStart s"
    by (simp only: takeWhile_dropWhile_id rev_rev_ident)
  then have 2: "trimStart s = trim s @ rev (takeWhile isWhiteSpace (rev (trimStart s)))"
    by (simp only: rev_append trim_def trimEnd_def)
  from 1 2 show ?thesis by metis
qed

lemma includes_trim: "includes_str (trim s) p \<Longrightarrow> includes_str s p"
  using trim_decomposition [of s] includes_str_append by metis

lemma occurrences_none: "\<not> includes_str s p \<Longrightarrow> occurrences s p = 0"
  by (induction s) (auto split: if_splits)

lemma occurrences_generic: "occurrences (genericSection @ t) ruleMarker = Suc (occurrences t ruleMarker)"
  by (simp add: genericSection_def ruleMarker_def newline_def)

lemma trim_id: "s \<noteq> [] \<Longrightarrow> \<not> isWhiteSpace (hd s) \<Longrightarrow> \<not> isWhiteSpace (last s) \<Longrightarrow> trim s = s"
proof -
  assume a: "s \<noteq> []" "\<not> isWhiteSpace (hd s)" "\<not> isWhiteSpace (last s)"
  then have 1: "trimStart s = s" by (cases s) (simp_all add: trimStart_def)
  from a have "dropWhile isWhiteSpace (rev s) = rev s"
    by (cases "rev s") (simp_all add: last_rev hd_rev)
  then show ?thesis by (simp add: trim_def trimEnd_def 1)
qed

text \<open>
  C5, as amended. The converted document is the generated heading and description lines
  followed by the body with leading and trailing white space removed, when the body
  contains the rule marker; otherwise followed by one generic instructions section that
  wraps the trimmed body, and the marker then occurs exactly once in that part (no other
  section is introduced). A body that neither starts nor ends with white space is kept
  byte for byte.
\<close>

theorem convertToCursorRules_body:
  "convertToCursorRules skill =
     cursorHeading skill @
       (if includes_str (content skill) ruleMarker then trim (content skill)
        else genericSection @ trim (content skill))
   \<and> (\<not> includes_str (content skill) ruleMarker \<longrightarrow>
        occurrences (genericSection @ trim (content skill)) ruleMarker = 1)
   \<and> (body \<noteq> [] \<and> \<not> isWhiteSpace (hd body) \<and> \<not> isWhiteSpace (last body) \<longrightarrow> trim body = body)"
proof (intro conjI impI)
  show "convertToCursorRules skill =
     cursorHeading skill @
       (if includes_str (content skill) ruleMarker then trim (content skill)
        else genericSection @ trim (content skill))"
    by (simp add: convertToCursorRules_def cursorHeading_def genericSection_def)
next
  assume "\<not> includes_str (content skill) ruleMarker"
  then have "\<not> includes_str (trim (content skill)) ruleMarker"
    using includes_trim by blast
  then show "occurrences (genericSection @ trim (content skill)) ruleMarker = 1"
    by (simp add: occurrences_generic occurrences_none)
next
  assume "body \<noteq> [] \<and> \<not> isWhiteSpace (hd body) \<and> \<not> isWhiteSpace (last body)"
  then show "trim body = body" by (simp add: trim_id)
qed

theorem convertToCursorRules_body_witness:
  "occurrences (genericSection @ trim ([newline] @ ''Use the demo.'' @ [newline])) ruleMarker = 1
   \<and> trim ''## Rule: A'' = ''## Rule: A''"
  using convertToCursorRules_body [of
      "\<lparr>metadata = [], content = [newline] @ ''Use the demo.'' @ [newline], raw = []\<rparr>"
      "''## Rule: A''"]
  by (simp add: ruleMarker_def newline_def isWhiteSpace_def)

text \<open>
  C5 as stated fails: a body that contains the marker and is surrounded by line breaks
  (as the text after a manifest header is) does not reappear byte for byte.
\<close>

theorem convertToCursorRules_counterexample:
  "includes_str ([newline] @ ''## Rule: A'' @ [newline]) ruleMarker
   \<and> convertToCursorRules \<lparr>metadata = [(''name'', JStr ''n''), (''description'', JStr ''d'')],
        content = [newline] @ ''## Rule: A'' @ [newline], raw = []\<rparr>
     \<noteq> cursorHeading \<lparr>metadata = [(''name'', JStr ''n''), (''description'', JStr ''d'')],
        content = [newline] @ ''## Rule: A'' @ [newline], raw = []\<rparr>
        @ ([newline] @ ''## Rule: A'' @ [newline])
   \<and> convertToCursorRules \<lparr>metadata = [(''name'', JStr ''n''), (''description'', JStr ''d'')],
        content = [newline] @ ''## Rule: A'' @ [newline], raw = []\<rparr>
     = cursorHeading \<lparr>metadata = [(''name'', JStr ''n''), (''description'', JStr ''d'')],
        content = [newline] @ ''## Rule: A'' @ [newline], raw = []\<rparr> @ ''## Rule: A''"
  by (simp add: convertToCursorRules_def cursorHeading_def ruleMarker_def newline_def getProp_def
      joinElement_def trim_def trimStart_def trimEnd_def isWhiteSpace_def)

section \<open>Effects: evaluation rules\<close>

lemma ioReturn_apply: "ioReturn x w = Some (Inr x, w)"
  by (simp add: ioReturn_def)

lemma ioThrow_apply: "ioThrow e w = Some (Inl e, w)"
  by (simp add: ioThrow_def)

lemma ioPure_apply: "ioPure r w = Some (r, w)"
  by (simp add: ioPure_def)

lemma ioRead_apply: "ioRead f w = Some (f w, w)"
  by (simp add: ioRead_def)

lemma ioCall_apply: "ioCall f w = Some (f w)"
  by (simp add: ioCall_def)

lemma ioBind_apply:
  "ioBind m f w = (case m w of None \<Rightarrow> None | Some (Inl e, w1) \<Rightarrow> Some (Inl e, w1)
                    | Some (Inr x, w1) \<Rightarrow> f x w1)"
  by (simp add: ioBind_def)

lemma ioCatch_apply:
  "ioCatch m h w = (case m w of None \<Rightarrow> None | Some (Inl e, w1) \<Rightarrow> h e w1
                     | Some (Inr x, w1) \<Rightarrow> Some (Inr x, w1))"
  by (simp add: ioCatch_def)

lemmas io_apply = ioReturn_apply ioThrow_apply ioPure_apply ioRead_apply ioCall_apply
  ioBind_apply ioCatch_apply


lemma exists_true: "denoStat E p w = Inr d \<Longrightarrow> exists E p w = Some (Inr True, w)"
  by (simp add: exists_def io_apply)

lemma readTextFile_reads: "\<exists>r. readTextFile E p w = Some (r, w)"
  by (simp add: readTextFile_def io_apply split: sum.splits)

lemma parseSkillFile_reads: "\<exists>r. parseSkillFile E p w = Some (r, w)"
  using readTextFile_reads [of E p w]
  by (auto simp add: parseSkillFile_def io_apply split: sum.splits)






section \<open>Deployment: properties\<close>













lemma deployTargets_append:
  "deployTargets E fuel skillDir n options (xs @ ys) w =
     (case deployTargets E fuel skillDir n options xs w of
        None \<Rightarrow> None
      | Some (Inl e, w1) \<Rightarrow> Some (Inl e, w1)
      | Some (Inr rs1, w1) \<Rightarrow>
          (case deployTargets E fuel skillDir n options ys w1 of
             None \<Rightarrow> None
           | Some (Inl e, w2) \<Rightarrow> Some (Inl e, w2)
           | Some (Inr rs2, w2) \<Rightarrow> Some (Inr (rs1 @ rs2), w2)))"
proof (induction xs arbitrary: w)
  case Nil
  then show ?case by (simp add: io_apply split: option.splits sum.splits prod.splits)
next
  case (Cons x xs)
  show ?case
    by (simp add: io_apply Cons.IH split: option.splits sum.splits prod.splits)
qed

lemma deployOne_guard:
  assumes "\<not> force options"
    and "destinationOf E tgt skillName = Inr p"
    and "exists E p w = Some (Inr True, w)"
    and "tgt = Cursor \<longrightarrow>
           (\<exists>skillPath sk. pathJoin E skillDir (JStr ''SKILL.md'') = Inr skillPath
               \<and> parseSkillFile E skillPath w = Some (Inr sk, w))"
  shows "deployOne E fuel skillDir skillName options tgt w =
           Some (Inr \<lparr>target = tgt, success = False, path = None,
                       error = Some (alreadyExistsMessage tgt p)\<rparr>, w)"
proof (cases "tgt = Cursor")
  case True
  with assms obtain skillPath sk where
    "pathJoin E skillDir (JStr ''SKILL.md'') = Inr skillPath"
    "parseSkillFile E skillPath w = Some (Inr sk, w)" by blast
  with True assms show ?thesis
    by (simp add: deployOne_def deployToCursor_def destinationOf_def alreadyExistsMessage_def
        io_apply Let_def)
next
  case False
  with assms show ?thesis
    by (auto simp add: deployOne_def deployToClaudeOrCodex_def destinationOf_def
        alreadyExistsMessage_def io_apply split: sum.splits)
qed

text \<open>
  Claim C2. Let \<open>deploySkill\<close> reach a target in the state \<open>w1\<close> (after the targets
  before it), with force not set, the target's destination resolved to \<open>p\<close> and
  present in \<open>w1\<close> (for the cursor target the manifest is read again and must still
  parse). Then the outcome at the target's position is the failure carrying the
  "already exists, use --force" message, and the targets after it run from \<open>w1\<close>
  itself: the target changed nothing.
\<close>

theorem existing_destination_without_force:
  assumes "\<not> force options"
    and "targets options = before @ tgt # after"
    and "pathJoin E skillDir (JStr ''SKILL.md'') = Inr skillPath"
    and "parseSkillFile E skillPath w = Some (Inr skill, w)"
    and "deployTargets E fuel skillDir (getProp (metadata skill) ''name'') options before w
           = Some (Inr rs1, w1)"
    and "destinationOf E tgt (getProp (metadata skill) ''name'') = Inr p"
    and "exists E p w1 = Some (Inr True, w1)"
    and "tgt = Cursor \<longrightarrow> (\<exists>sk. parseSkillFile E skillPath w1 = Some (Inr sk, w1))"
  shows "deploySkill E fuel skillDir options w =
           (case deployTargets E fuel skillDir (getProp (metadata skill) ''name'') options after w1 of
              None \<Rightarrow> None
            | Some (Inl e, w2) \<Rightarrow> Some (Inl e, w2)
            | Some (Inr rs2, w2) \<Rightarrow>
                Some (Inr (rs1 @ \<lparr>target = tgt, success = False, path = None,
                                  error = Some (alreadyExistsMessage tgt p)\<rparr> # rs2), w2))"
proof -
  let ?n = "getProp (metadata skill) ''name''"
  have one: "deployOne E fuel skillDir ?n options tgt w1 =
           Some (Inr \<lparr>target = tgt, success = False, path = None,
                       error = Some (alreadyExistsMessage tgt p)\<rparr>, w1)"
    using assms by (intro deployOne_guard) auto
  have step: "deployTargets E fuel skillDir ?n options (tgt # after) w1 =
      (case deployTargets E fuel skillDir ?n options after w1 of
              None \<Rightarrow> None
            | Some (Inl e, w2) \<Rightarrow> Some (Inl e, w2)
            | Some (Inr rs2, w2) \<Rightarrow>
                Some (Inr (\<lparr>target = tgt, success = False, path = None,
                            error = Some (alreadyExistsMessage tgt p)\<rparr> # rs2), w2))"
    using one
    by (simp add: deployOne_def io_apply split: option.splits sum.splits prod.splits)
  have "deploySkill E fuel skillDir options w =
          deployTargets E fuel skillDir ?n options (before @ tgt # after) w"
    using assms by (simp add: deploySkill_def io_apply Let_def)
  then show ?thesis
    using assms(5) step
    by (simp add: deployTargets_append split: option.splits sum.splits prod.splits)
qed

theorem existing_destination_without_force_witness:
  "deploySkill demoRuntime 5 ''/src/demo''
     \<lparr>targets = [Claude], force = False, dryRun = False, projectPath = None\<rparr> deployedWorld
   = Some (Inr [\<lparr>target = Claude, success = False, path = None,
                  error = Some ''Skill already exists at /home/user/.claude/skills/demo. Use --force to overwrite.''\<rparr>],
           deployedWorld)
   \<and> deploySkill demoRuntime 5 ''/src/demo''
     \<lparr>targets = [Cursor], force = False, dryRun = False, projectPath = None\<rparr> cursorFileWorld
   = Some (Inr [\<lparr>target = Cursor, success = False, path = None,
                  error = Some ''.cursorrules already exists. Use --force to overwrite.''\<rparr>],
           cursorFileWorld)"
proof -
  let ?o = "\<lparr>targets = [Claude], force = False, dryRun = False, projectPath = None\<rparr>"
  let ?c = "\<lparr>targets = [Cursor], force = False, dryRun = False, projectPath = None\<rparr>"
  have 1: "\<not> force ?o" "\<not> force ?c" by simp_all
  have 2: "targets ?o = [] @ Claude # []" "targets ?c = [] @ Cursor # []" by simp_all
  have 3: "pathJoin demoRuntime ''/src/demo'' (JStr ''SKILL.md'') = Inr ''/src/demo/SKILL.md''"
    by code_simp
  have 4: "parseSkillFile demoRuntime ''/src/demo/SKILL.md'' deployedWorld
             = Some (Inr demoSkill, deployedWorld)"
    "parseSkillFile demoRuntime ''/src/demo/SKILL.md'' cursorFileWorld
             = Some (Inr demoSkill, cursorFileWorld)"
    by code_simp+
  have 5: "deployTargets demoRuntime 5 ''/src/demo'' (getProp (metadata demoSkill) ''name'') ?o []
             deployedWorld = Some (Inr [], deployedWorld)"
    "deployTargets demoRuntime 5 ''/src/demo'' (getProp (metadata demoSkill) ''name'') ?c []
             cursorFileWorld = Some (Inr [], cursorFileWorld)"
    by (simp_all add: io_apply)
  have 6: "destinationOf demoRuntime Claude (getProp (metadata demoSkill) ''name'')
             = Inr ''/home/user/.claude/skills/demo''"
    "destinationOf demoRuntime Cursor (getProp (metadata demoSkill) ''name'') = Inr ''.cursorrules''"
    by code_simp+
  have 7: "exists demoRuntime ''/home/user/.claude/skills/demo'' deployedWorld
             = Some (Inr True, deployedWorld)"
    "exists demoRuntime ''.cursorrules'' cursorFileWorld = Some (Inr True, cursorFileWorld)"
    by code_simp+
  have 8: "Claude = Cursor \<longrightarrow>
      (\<exists>sk. parseSkillFile demoRuntime ''/src/demo/SKILL.md'' deployedWorld = Some (Inr sk, deployedWorld))"
    "Cursor = Cursor \<longrightarrow>
      (\<exists>sk. parseSkillFile demoRuntime ''/src/demo/SKILL.md'' cursorFileWorld = Some (Inr sk, cursorFileWorld))"
    using 4 by simp_all
  from existing_destination_without_force [OF 1(1) 2(1) 3 4(1) 5(1) 6(1) 7(1) 8(1)]
    existing_destination_without_force [OF 1(2) 2(2) 3 4(2) 5(2) 6(2) 7(2) 8(2)]
  show ?thesis by (simp add: io_apply alreadyExistsMessage_def)
qed

text \<open>
  Claim C4 (the code does not do what the claim and the documentation of
  \<^verbatim>\<open>--project-path\<close> say): with a project path supplied, the claude target still
  resolves to the user-scope location. \<open>deploySkill\<close> never reads the option.
\<close>

theorem projectPath_ignored_at_input:
  "deploySkill demoRuntime 5 ''/src/demo''
     \<lparr>targets = [Claude], force = False, dryRun = True, projectPath = Some ''/proj''\<rparr> demoWorld
   = Some (Inr [\<lparr>target = Claude, success = True,
                  path = Some ''/home/user/.claude/skills/demo'', error = None\<rparr>], demoWorld)"
  by code_simp

lemma projectPath_ignored:
  "deploySkill E fuel skillDir (options\<lparr>projectPath := pp\<rparr>) = deploySkill E fuel skillDir options"
proof -
  have c: "deployToClaudeOrCodex E fuel skillDir tgt n (options\<lparr>projectPath := pp\<rparr>)
        = deployToClaudeOrCodex E fuel skillDir tgt n options" for tgt n
    by (simp add: deployToClaudeOrCodex_def cong: if_cong)
  have u: "deployToCursor E skillDir (options\<lparr>projectPath := pp\<rparr>) = deployToCursor E skillDir options"
    by (simp add: deployToCursor_def cong: if_cong)
  have t: "deployTargets E fuel skillDir n (options\<lparr>projectPath := pp\<rparr>) tgts
        = deployTargets E fuel skillDir n options tgts" for n tgts
    by (induction tgts) (simp_all add: c u)
  show ?thesis by (simp add: deploySkill_def t)
qed

text \<open>
  Claim C6, amended. For the claude and codex targets \<open>removeSkill\<close> removes the
  per-skill directory recursively when it is present and returns success, and returns the
  "Skill not found" failure, changing nothing, when it is absent. For the cursor target
  it removes the single rules file when present, whatever the name, and returns success;
  when the file is absent it also returns success, with no error, and changes nothing.
\<close>

theorem removeSkill_outcomes:
  "(tgt1 \<noteq> Cursor \<and> destinationOf E tgt1 (JStr name1) = Inr p1
      \<and> exists E p1 w1 = Some (Inr True, w1) \<and> denoRemove E p1 True w1 = (Inr (), w1')
     \<longrightarrow> removeSkill E name1 tgt1 w1 = Some (Inr \<lparr>rm_success = True, rm_error = None\<rparr>, w1'))
   \<and> (tgt2 \<noteq> Cursor \<and> destinationOf E tgt2 (JStr name2) = Inr p2
      \<and> exists E p2 w2 = Some (Inr False, w2)
     \<longrightarrow> removeSkill E name2 tgt2 w2
           = Some (Inr \<lparr>rm_success = False, rm_error = Some (''Skill not found: '' @ p2)\<rparr>, w2))
   \<and> (exists E TARGET_PATHS_cursor_project w3 = Some (Inr True, w3)
      \<and> denoRemove E TARGET_PATHS_cursor_project False w3 = (Inr (), w3')
     \<longrightarrow> removeSkill E name3 Cursor w3 = Some (Inr \<lparr>rm_success = True, rm_error = None\<rparr>, w3'))
   \<and> (exists E TARGET_PATHS_cursor_project w4 = Some (Inr False, w4)
     \<longrightarrow> removeSkill E name4 Cursor w4 = Some (Inr \<lparr>rm_success = True, rm_error = None\<rparr>, w4))"
  by (auto simp add: removeSkill_def destinationOf_def io_apply Let_def split: sum.splits)

theorem removeSkill_outcomes_witness:
  "removeSkill demoRuntime ''demo'' Claude deployedWorld
     = Some (Inr \<lparr>rm_success = True, rm_error = None\<rparr>, undeployedWorld)
   \<and> removeSkill demoRuntime ''demo'' Codex demoWorld
     = Some (Inr \<lparr>rm_success = False,
                 rm_error = Some ''Skill not found: /home/user/.codex/skills/demo''\<rparr>, demoWorld)
   \<and> removeSkill demoRuntime ''demo'' Cursor cursorFileWorld
     = Some (Inr \<lparr>rm_success = True, rm_error = None\<rparr>, demoWorld)
   \<and> removeSkill demoRuntime ''other'' Cursor demoWorld
     = Some (Inr \<lparr>rm_success = True, rm_error = None\<rparr>, demoWorld)"
proof -
  have 1: "Claude \<noteq> Cursor \<and> destinationOf demoRuntime Claude (JStr ''demo'')
             = Inr ''/home/user/.claude/skills/demo''
      \<and> exists demoRuntime ''/home/user/.claude/skills/demo'' deployedWorld
             = Some (Inr True, deployedWorld)
      \<and> denoRemove demoRuntime ''/home/user/.claude/skills/demo'' True deployedWorld
             = (Inr (), undeployedWorld)"
    by code_simp
  have 2: "Codex \<noteq> Cursor \<and> destinationOf demoRuntime Codex (JStr ''demo'')
             = Inr ''/home/user/.codex/skills/demo''
      \<and> exists demoRuntime ''/home/user/.codex/skills/demo'' demoWorld = Some (Inr False, demoWorld)"
    by code_simp
  have 3: "exists demoRuntime TARGET_PATHS_cursor_project cursorFileWorld
             = Some (Inr True, cursorFileWorld)
      \<and> denoRemove demoRuntime TARGET_PATHS_cursor_project False cursorFileWorld = (Inr (), demoWorld)"
    by code_simp
  have 4: "exists demoRuntime TARGET_PATHS_cursor_project demoWorld = Some (Inr False, demoWorld)"
    by code_simp
  from removeSkill_outcomes [of Claude demoRuntime "''demo''" "''/home/user/.claude/skills/demo''"
      deployedWorld undeployedWorld Codex "''demo''" "''/home/user/.codex/skills/demo''" demoWorld
      cursorFileWorld demoWorld "''demo''" demoWorld "''other''"] 1 2 3 4
  show ?thesis by simp
qed

text \<open>
  Claim C6 as stated fails for the cursor target: with no rules file present,
  \<open>removeSkill\<close> returns success and no error (the repository's test
  "removeSkill - cursor target" expects exactly this).
\<close>

theorem removeSkill_cursor_counterexample:
  "memStat TARGET_PATHS_cursor_project demoWorld = Inl (notFound ''.cursorrules'')
   \<and> removeSkill demoRuntime ''any-name'' Cursor demoWorld
       = Some (Inr \<lparr>rm_success = True, rm_error = None\<rparr>, demoWorld)"
  by code_simp


section \<open>The link registry: properties\<close>

lemma findIndex_Some:
  "findIndex p xs = Some i \<Longrightarrow> i < length xs \<and> p (xs ! i) \<and> (\<forall>j < i. \<not> p (xs ! j))"
proof (induction xs arbitrary: i)
  case Nil
  then show ?case by simp
next
  case (Cons x xs)
  show ?case
  proof (cases "p x")
    case True
    with Cons.prems show ?thesis by simp
  next
    case False
    with Cons.prems obtain k where k: "findIndex p xs = Some k" "i = Suc k" by auto
    from Cons.IH [OF k(1)] False k(2) show ?thesis
      by (auto simp: nth_Cons split: nat.splits)
  qed
qed

lemma findIndex_None: "findIndex p xs = None \<longleftrightarrow> (\<forall>x \<in> set xs. \<not> p x)"
  by (induction xs) auto

lemma findIndex_find:
  "find p xs = (case findIndex p xs of None \<Rightarrow> None | Some i \<Rightarrow> Some (xs ! i))"
  by (induction xs) (auto split: option.splits)

lemma readLinkRegistry_reads: "\<exists>r. readLinkRegistry E tgt ul w = Some (r, w)"
  by (cases "getLinkRegistryPath E tgt ul")
     (auto simp add: readLinkRegistry_def io_apply split: sum.splits option.splits prod.splits)

lemma writeLinkRegistry_returns: "\<exists>r w'. writeLinkRegistry E tgt ul reg w = Some (r, w')"
  by (cases "getLinkRegistryPath E tgt ul")
     (auto simp add: writeLinkRegistry_def io_apply Let_def split: sum.splits option.splits prod.splits)

lemma validateSkillFile_reads: "\<exists>r. validateSkillFile E p w = Some (Inr r, w)"
proof -
  obtain s where "parseSkillFile E p w = Some (s, w)"
    using parseSkillFile_reads [of E p w] by blast
  then show ?thesis
    by (cases s) (simp_all add: validateSkillFile_def io_apply Let_def)
qed

lemma validateSkillDir_reads: "\<exists>r. validateSkillDir E p w = Some (Inr r, w)"
proof -
  obtain r where r: "validateSkillFile E (p @ ''/SKILL.md'') w = Some (Inr r, w)"
    using validateSkillFile_reads [of E "p @ ''/SKILL.md''" w] by blast
  show ?thesis
    by (cases "denoStat E p w"; cases "denoStat E (p @ ''/SKILL.md'') w")
       (simp_all add: validateSkillDir_def io_apply Let_def r)
qed

lemma validateLink_reads: "\<exists>r. validateLink E link w = Some (r, w)"
proof (cases "link_type link")
  case Local
  show ?thesis
  proof (cases "expandHome E (link_source link)")
    case (Inl e)
    with Local show ?thesis by (simp add: validateLink_def io_apply)
  next
    case (Inr sourcePath)
    obtain r where r: "validateSkillDir E sourcePath w = Some (Inr r, w)"
      using validateSkillDir_reads [of E sourcePath w] by blast
    with Local Inr show ?thesis
      by (cases "denoStat E sourcePath w") (simp_all add: validateLink_def io_apply)
  qed
next
  case Git
  then show ?thesis by (simp add: validateLink_def io_apply)
next
  case Web
  then show ?thesis by (simp add: validateLink_def io_apply)
qed


lemma addLink_run:
  assumes "readLinkRegistry E (opt_target options) (userLevelOrTrue options) w = Some (Inr reg, w)"
  shows "addLink E name source options details w =
     (if findIndex (\<lambda>l. link_name l = name) (links reg) \<noteq> None \<and> \<not> opt_force options
      then Some (Inr \<lparr>lr_success = False, lr_link = None,
                  lr_error = Some (''Link '' @ [dquote] @ name @ [dquote]
                                   @ '' already exists. Use --force to overwrite.'')\<rparr>, w)
      else (case validateLink E (newLink name source details) w of
          None \<Rightarrow> None
        | Some (Inl e, w1) \<Rightarrow>
            Some (Inr \<lparr>lr_success = False, lr_link = None, lr_error = Some (errorMessage e)\<rparr>, w1)
        | Some (Inr v, w1) \<Rightarrow>
            if \<not> lv_valid v
            then Some (Inr \<lparr>lr_success = False, lr_link = None, lr_error = lv_error v\<rparr>, w1)
            else (case writeLinkRegistry E (opt_target options) (userLevelOrTrue options)
                         (reg\<lparr>links := upsertLink (newLink name source details) (links reg)\<rparr>) w1 of
                None \<Rightarrow> None
              | Some (Inl e, w2) \<Rightarrow>
                  Some (Inr \<lparr>lr_success = False, lr_link = None,
                          lr_error = Some (errorMessage e)\<rparr>, w2)
              | Some (Inr u, w2) \<Rightarrow>
                  Some (Inr \<lparr>lr_success = True, lr_link = Some (newLink name source details),
                          lr_error = None\<rparr>, w2))))"
proof -
  let ?link = "newLink name source details"
  obtain v where v: "validateLink E ?link w = Some (v, w)"
    using validateLink_reads [of E ?link w] by blast
  obtain x w2 where x: "writeLinkRegistry E (opt_target options) (userLevelOrTrue options)
                             (reg\<lparr>links := upsertLink ?link (links reg)\<rparr>) w = Some (x, w2)"
    using writeLinkRegistry_returns [of E "opt_target options" "userLevelOrTrue options"
        "reg\<lparr>links := upsertLink ?link (links reg)\<rparr>" w] by blast
  show ?thesis
    using assms v x
    by (cases "findIndex (\<lambda>l. link_name l = name) (links reg)"; cases v; cases x)
       (simp_all add: addLink_def io_apply Let_def newLink_def upsertLink_def)
qed

lemma removeLink_run:
  assumes "readLinkRegistry E (opt_target options) (userLevelOrTrue options) w = Some (Inr reg, w)"
  shows "removeLink E name options w =
     (case findIndex (\<lambda>l. link_name l = name) (links reg) of
        None \<Rightarrow> Some (Inr \<lparr>lr_success = False, lr_link = None,
                    lr_error = Some (''Link '' @ [dquote] @ name @ [dquote] @ '' not found'')\<rparr>, w)
      | Some i \<Rightarrow>
          (case writeLinkRegistry E (opt_target options) (userLevelOrTrue options)
                  (reg\<lparr>links := dropLink name (links reg)\<rparr>) w of
             None \<Rightarrow> None
           | Some (Inl e, w2) \<Rightarrow>
               Some (Inr \<lparr>lr_success = False, lr_link = None, lr_error = Some (errorMessage e)\<rparr>, w2)
           | Some (Inr u, w2) \<Rightarrow>
               Some (Inr \<lparr>lr_success = True, lr_link = Some (links reg ! i), lr_error = None\<rparr>, w2)))"
proof (cases "findIndex (\<lambda>l. link_name l = name) (links reg)")
  case None
  with assms show ?thesis by (simp add: removeLink_def io_apply)
next
  case (Some i)
  obtain x w2 where x: "writeLinkRegistry E (opt_target options) (userLevelOrTrue options)
                  (reg\<lparr>links := dropLink name (links reg)\<rparr>) w = Some (x, w2)"
    using writeLinkRegistry_returns [of E "opt_target options" "userLevelOrTrue options"
        "reg\<lparr>links := dropLink name (links reg)\<rparr>" w] by blast
  with Some assms show ?thesis
    by (cases x) (simp_all add: removeLink_def io_apply Let_def dropLink_def)
qed

lemma toggleLink_run:
  assumes "readLinkRegistry E (opt_target options) (userLevelOrTrue options) w = Some (Inr reg, w)"
  shows "toggleLink E name enabled options w =
     (case findIndex (\<lambda>l. link_name l = name) (links reg) of
        None \<Rightarrow> Some (Inr \<lparr>lr_success = False, lr_link = None,
                    lr_error = Some (''Link '' @ [dquote] @ name @ [dquote] @ '' not found'')\<rparr>, w)
      | Some i \<Rightarrow>
          (case writeLinkRegistry E (opt_target options) (userLevelOrTrue options)
                  (reg\<lparr>links := (links reg)[i := (links reg ! i)\<lparr>link_enabled := enabled\<rparr>]\<rparr>) w of
             None \<Rightarrow> None
           | Some (Inl e, w2) \<Rightarrow>
               Some (Inr \<lparr>lr_success = False, lr_link = None, lr_error = Some (errorMessage e)\<rparr>, w2)
           | Some (Inr u, w2) \<Rightarrow>
               Some (Inr \<lparr>lr_success = True,
                       lr_link = Some ((links reg ! i)\<lparr>link_enabled := enabled\<rparr>),
                       lr_error = None\<rparr>, w2)))"
proof (cases "findIndex (\<lambda>l. link_name l = name) (links reg)")
  case None
  with assms show ?thesis by (simp add: toggleLink_def io_apply)
next
  case (Some i)
  obtain x w2 where x: "writeLinkRegistry E (opt_target options) (userLevelOrTrue options)
                  (reg\<lparr>links := (links reg)[i := (links reg ! i)\<lparr>link_enabled := enabled\<rparr>]\<rparr>) w
                  = Some (x, w2)"
    using writeLinkRegistry_returns [of E "opt_target options" "userLevelOrTrue options"
        "reg\<lparr>links := (links reg)[i := (links reg ! i)\<lparr>link_enabled := enabled\<rparr>]\<rparr>" w]
    by blast
  with Some assms show ?thesis
    by (cases x) (simp_all add: toggleLink_def io_apply Let_def)
qed

lemma distinct_count_one: "distinct xs \<Longrightarrow> x \<in> set xs \<Longrightarrow> length (filter (\<lambda>n. n = x) xs) = 1"
proof (induction xs)
  case Nil
  then show ?case by simp
next
  case (Cons y ys)
  show ?case
  proof (cases "y = x")
    case True
    with Cons.prems have "x \<notin> set ys" by simp
    then have "filter (\<lambda>n. n = x) ys = []" by (auto simp: filter_empty_conv)
    with True show ?thesis by simp
  next
    case False
    with Cons show ?thesis by simp
  qed
qed

lemma upsertLink_distinct:
  assumes "distinct (map link_name ls)"
  shows "distinct (map link_name (upsertLink link ls))
       \<and> length (filter (\<lambda>l. link_name l = link_name link) (upsertLink link ls)) = 1"
proof -
  have count: "length (filter (\<lambda>l. link_name l = link_name link) xs)
      = length (filter (\<lambda>n. n = link_name link) (map link_name xs))" for xs
    by (simp add: filter_map comp_def)
  show ?thesis
  proof (cases "findIndex (\<lambda>l. link_name l = link_name link) ls")
    case None
    then have no: "\<forall>x \<in> set ls. link_name x \<noteq> link_name link" by (simp add: findIndex_None)
    then have "link_name link \<notin> set (map link_name ls)" by auto
    with None assms have d: "distinct (map link_name (upsertLink link ls))"
      by (simp add: upsertLink_def)
    have "link_name link \<in> set (map link_name (upsertLink link ls))"
      using None by (simp add: upsertLink_def)
    with d have "length (filter (\<lambda>n. n = link_name link) (map link_name (upsertLink link ls))) = 1"
      by (rule distinct_count_one)
    with d show ?thesis unfolding count by simp
  next
    case (Some i)
    from findIndex_Some [OF Some] have i: "i < length ls" "link_name (ls ! i) = link_name link"
      by auto
    have names: "map link_name (ls[i := link]) = map link_name ls"
      using i by (simp add: map_update list_update_same_conv)
    have mem: "link_name link \<in> set (map link_name ls)"
      using i by (metis length_map nth_map nth_mem)
    from Some have u: "upsertLink link ls = ls[i := link]" by (simp add: upsertLink_def)
    from assms mem have "length (filter (\<lambda>n. n = link_name link) (map link_name ls)) = 1"
      by (rule distinct_count_one)
    with assms show ?thesis
      unfolding u count names by simp
  qed
qed

lemma dropLink_distinct:
  assumes "distinct (map link_name ls)"
  shows "distinct (map link_name (dropLink name ls)) \<and> name \<notin> link_name ` set (dropLink name ls)"
proof (cases "findIndex (\<lambda>l. link_name l = name) ls")
  case None
  then have "\<forall>x \<in> set ls. link_name x \<noteq> name" by (simp add: findIndex_None)
  with None assms show ?thesis by (auto simp add: dropLink_def)
next
  case (Some i)
  from findIndex_Some [OF Some] have i: "i < length ls" "link_name (ls ! i) = name" by auto
  have split: "ls = take i ls @ (ls ! i) # drop (Suc i) ls"
    using i by (simp add: id_take_nth_drop)
  have "distinct (map link_name (take i ls @ (ls ! i) # drop (Suc i) ls))"
    using assms split by simp
  then have "distinct (map link_name (take i ls @ drop (Suc i) ls))
      \<and> name \<notin> link_name ` set (take i ls @ drop (Suc i) ls)"
    using i by auto
  with Some show ?thesis by (simp add: dropLink_def)
qed


text \<open>
  Claim C8. Let the registry file hold \<open>reg\<close>. (1) Adding a name that \<open>reg\<close> already
  holds, without force, fails with the "already exists" message and returns in the state
  it started in, so that listing still returns the links of \<open>reg\<close>, the original entry
  among them. (2) Adding a name that is absent, or any name with force, succeeds whenever
  the link validates and the registry file can be written: it returns the new link in the
  state the write of \<open>reg\<close> with the link upserted has left. (3) Conversely every
  successful add is such an add and has written exactly that registry. (4) Where the name
  was present, first at index \<open>i\<close>, the upsert replaces the entry at \<open>i\<close> in place, and
  (5) where it was absent the upsert appends the link. (6) On a registry with at most one
  link per name the upserted list again has at most one link per name and exactly one with
  the added name. (7) Removing a name that is present succeeds whenever the registry file
  can be written: it returns the first link with the name in the state the write of
  \<open>reg\<close> without that entry has left; (8) removing a name that is absent answers "not
  found" in the unchanged state; (9) every successful remove is a remove of a present name
  and has written exactly that registry. (10) On a registry with at most one link per name
  the list written has at most one link per name and none with the removed name.
  (11) Listing, in any state, returns the links of the registry the file holds there. So
  add and remove preserve the invariant of at most one link per name.
\<close>

theorem registry_add_remove:
  assumes rd: "readLinkRegistry E (opt_target options) (userLevelOrTrue options) w = Some (Inr reg, w)"
  shows
  "(name \<in> link_name ` set (links reg) \<and> \<not> opt_force options \<longrightarrow>
      addLink E name source options details w
        = Some (Inr \<lparr>lr_success = False, lr_link = None,
                     lr_error = Some (''Link '' @ [dquote] @ name @ [dquote]
                                      @ '' already exists. Use --force to overwrite.'')\<rparr>, w)
      \<and> listLinks E options w = Some (Inr (links reg), w))
   \<and> ((name \<notin> link_name ` set (links reg) \<or> opt_force options)
        \<and> validateLink E (newLink name source details) w = Some (Inr v, w) \<and> lv_valid v
        \<and> writeLinkRegistry E (opt_target options) (userLevelOrTrue options)
             (reg\<lparr>links := upsertLink (newLink name source details) (links reg)\<rparr>) w
           = Some (Inr (), w') \<longrightarrow>
        addLink E name source options details w
          = Some (Inr \<lparr>lr_success = True, lr_link = Some (newLink name source details),
                       lr_error = None\<rparr>, w'))
   \<and> (addLink E name source options details w = Some (Inr r, w') \<and> lr_success r \<longrightarrow>
        (name \<notin> link_name ` set (links reg) \<or> opt_force options)
        \<and> lr_link r = Some (newLink name source details)
        \<and> writeLinkRegistry E (opt_target options) (userLevelOrTrue options)
             (reg\<lparr>links := upsertLink (newLink name source details) (links reg)\<rparr>) w
           = Some (Inr (), w'))
   \<and> (findIndex (\<lambda>l. link_name l = name) (links reg) = Some i \<longrightarrow>
        i < length (links reg) \<and> link_name (links reg ! i) = name
        \<and> upsertLink (newLink name source details) (links reg)
          = (links reg)[i := newLink name source details])
   \<and> (name \<notin> link_name ` set (links reg) \<longrightarrow>
        upsertLink (newLink name source details) (links reg)
          = links reg @ [newLink name source details])
   \<and> (distinct (map link_name (links reg)) \<longrightarrow>
        distinct (map link_name (upsertLink (newLink name source details) (links reg)))
        \<and> length (filter (\<lambda>l. link_name l = name)
                    (upsertLink (newLink name source details) (links reg))) = 1)
   \<and> (name \<in> link_name ` set (links reg)
        \<and> writeLinkRegistry E (opt_target options) (userLevelOrTrue options)
             (reg\<lparr>links := dropLink name (links reg)\<rparr>) w
           = Some (Inr (), w2) \<longrightarrow>
        removeLink E name options w
          = Some (Inr \<lparr>lr_success = True,
                       lr_link = find (\<lambda>l. link_name l = name) (links reg),
                       lr_error = None\<rparr>, w2))
   \<and> (name \<notin> link_name ` set (links reg) \<longrightarrow>
        removeLink E name options w
          = Some (Inr \<lparr>lr_success = False, lr_link = None,
                       lr_error = Some (''Link '' @ [dquote] @ name @ [dquote] @ '' not found'')\<rparr>, w))
   \<and> (removeLink E name options w = Some (Inr r2, w2) \<and> lr_success r2 \<longrightarrow>
        name \<in> link_name ` set (links reg)
        \<and> writeLinkRegistry E (opt_target options) (userLevelOrTrue options)
             (reg\<lparr>links := dropLink name (links reg)\<rparr>) w
           = Some (Inr (), w2))
   \<and> (distinct (map link_name (links reg)) \<longrightarrow>
        distinct (map link_name (dropLink name (links reg)))
        \<and> name \<notin> link_name ` set (dropLink name (links reg)))
   \<and> (readLinkRegistry E (opt_target options) (userLevelOrTrue options) w3 = Some (Inr reg3, w3) \<longrightarrow>
        listLinks E options w3 = Some (Inr (links reg3), w3))"
proof -
  let ?link = "newLink name source details"
  let ?present = "name \<in> link_name ` set (links reg)"
  have n: "link_name ?link = name" by (simp add: newLink_def)
  have present: "?present \<longleftrightarrow> findIndex (\<lambda>l. link_name l = name) (links reg) \<noteq> None"
    by (auto simp add: findIndex_None)
  note add = addLink_run [OF rd, of name source details]
  note rm = removeLink_run [OF rd, of name]
  have c1: "?present \<and> \<not> opt_force options \<longrightarrow>
      addLink E name source options details w
        = Some (Inr \<lparr>lr_success = False, lr_link = None,
                     lr_error = Some (''Link '' @ [dquote] @ name @ [dquote]
                                      @ '' already exists. Use --force to overwrite.'')\<rparr>, w)
      \<and> listLinks E options w = Some (Inr (links reg), w)"
    using rd by (simp add: add present listLinks_def io_apply)
  have c2: "(\<not> ?present \<or> opt_force options)
        \<and> validateLink E ?link w = Some (Inr v, w) \<and> lv_valid v
        \<and> writeLinkRegistry E (opt_target options) (userLevelOrTrue options)
             (reg\<lparr>links := upsertLink ?link (links reg)\<rparr>) w
           = Some (Inr (), w') \<longrightarrow>
        addLink E name source options details w
          = Some (Inr \<lparr>lr_success = True, lr_link = Some ?link, lr_error = None\<rparr>, w')"
    by (auto simp add: add present)
  have c3: "addLink E name source options details w = Some (Inr r, w') \<and> lr_success r \<longrightarrow>
        (\<not> ?present \<or> opt_force options)
        \<and> lr_link r = Some ?link
        \<and> writeLinkRegistry E (opt_target options) (userLevelOrTrue options)
             (reg\<lparr>links := upsertLink ?link (links reg)\<rparr>) w
           = Some (Inr (), w')"
  proof
    assume a: "addLink E name source options details w = Some (Inr r, w') \<and> lr_success r"
    obtain v where v: "validateLink E ?link w = Some (v, w)"
      using validateLink_reads [of E ?link w] by blast
    from a v show "(\<not> ?present \<or> opt_force options)
        \<and> lr_link r = Some ?link
        \<and> writeLinkRegistry E (opt_target options) (userLevelOrTrue options)
             (reg\<lparr>links := upsertLink ?link (links reg)\<rparr>) w
           = Some (Inr (), w')"
      unfolding add present
      by (auto split: if_splits option.splits sum.splits prod.splits)
  qed
  have c4: "findIndex (\<lambda>l. link_name l = name) (links reg) = Some i \<longrightarrow>
        i < length (links reg) \<and> link_name (links reg ! i) = name
        \<and> upsertLink ?link (links reg) = (links reg)[i := ?link]"
  proof
    assume f: "findIndex (\<lambda>l. link_name l = name) (links reg) = Some i"
    from findIndex_Some [OF f] f
    show "i < length (links reg) \<and> link_name (links reg ! i) = name
        \<and> upsertLink ?link (links reg) = (links reg)[i := ?link]"
      by (simp add: upsertLink_def n)
  qed
  have c5: "\<not> ?present \<longrightarrow> upsertLink ?link (links reg) = links reg @ [?link]"
    by (simp add: present upsertLink_def n)
  have c6: "distinct (map link_name (links reg)) \<longrightarrow>
        distinct (map link_name (upsertLink ?link (links reg)))
        \<and> length (filter (\<lambda>l. link_name l = name) (upsertLink ?link (links reg))) = 1"
    using upsertLink_distinct [of "links reg" ?link] by (simp add: n)
  have c7: "?present
        \<and> writeLinkRegistry E (opt_target options) (userLevelOrTrue options)
             (reg\<lparr>links := dropLink name (links reg)\<rparr>) w
           = Some (Inr (), w2) \<longrightarrow>
        removeLink E name options w
          = Some (Inr \<lparr>lr_success = True,
                       lr_link = find (\<lambda>l. link_name l = name) (links reg),
                       lr_error = None\<rparr>, w2)"
    by (auto simp add: rm present findIndex_find)
  have c8: "\<not> ?present \<longrightarrow>
        removeLink E name options w
          = Some (Inr \<lparr>lr_success = False, lr_link = None,
                       lr_error = Some (''Link '' @ [dquote] @ name @ [dquote] @ '' not found'')\<rparr>, w)"
    by (simp add: rm present)
  have c9: "removeLink E name options w = Some (Inr r2, w2) \<and> lr_success r2 \<longrightarrow>
        ?present
        \<and> writeLinkRegistry E (opt_target options) (userLevelOrTrue options)
             (reg\<lparr>links := dropLink name (links reg)\<rparr>) w
           = Some (Inr (), w2)"
    unfolding rm present
    by (auto split: if_splits option.splits sum.splits prod.splits)
  have c10: "distinct (map link_name (links reg)) \<longrightarrow>
        distinct (map link_name (dropLink name (links reg)))
        \<and> name \<notin> link_name ` set (dropLink name (links reg))"
    using dropLink_distinct [of "links reg" name] by simp
  have c11: "readLinkRegistry E (opt_target options) (userLevelOrTrue options) w3 = Some (Inr reg3, w3) \<longrightarrow>
        listLinks E options w3 = Some (Inr (links reg3), w3)"
    by (simp add: listLinks_def io_apply)
  from c1 c2 c3 c4 c5 c6 c7 c8 c9 c10 c11 show ?thesis by blast
qed


theorem registry_add_remove_witness:
  "addLink demoRuntime ''x'' ''/src/demo'' demoLinkOptions None linkedWorld
     = Some (Inr \<lparr>lr_success = False, lr_link = None,
                  lr_error = Some (''Link '' @ [dquote] @ ''x'' @ [dquote]
                                   @ '' already exists. Use --force to overwrite.'')\<rparr>, linkedWorld)
   \<and> listLinks demoRuntime demoLinkOptions linkedWorld = Some (Inr [demoLink], linkedWorld)
   \<and> addLink demoRuntime ''x'' ''/src/demo'' forcedLinkOptions None linkedWorld
       = Some (Inr \<lparr>lr_success = True, lr_link = Some localLink, lr_error = None\<rparr>,
               registryWorld [localLink])
   \<and> writeLinkRegistry demoRuntime Claude True
        (demoRegistry\<lparr>links := upsertLink localLink [demoLink]\<rparr>) linkedWorld
       = Some (Inr (), registryWorld [localLink])
   \<and> upsertLink localLink [demoLink] = [demoLink][0 := localLink]
   \<and> length (filter (\<lambda>l. link_name l = ''x'') (upsertLink localLink [demoLink])) = 1
   \<and> listLinks demoRuntime forcedLinkOptions (registryWorld [localLink])
       = Some (Inr [localLink], registryWorld [localLink])
   \<and> addLink demoRuntime ''y'' ''/src/demo'' demoLinkOptions None linkedWorld
       = Some (Inr \<lparr>lr_success = True, lr_link = Some otherLink, lr_error = None\<rparr>,
               registryWorld [demoLink, otherLink])
   \<and> upsertLink otherLink [demoLink] = [demoLink] @ [otherLink]
   \<and> removeLink demoRuntime ''x'' demoLinkOptions linkedWorld
       = Some (Inr \<lparr>lr_success = True, lr_link = Some demoLink, lr_error = None\<rparr>,
               registryWorld [])
   \<and> writeLinkRegistry demoRuntime Claude True
        (demoRegistry\<lparr>links := dropLink ''x'' [demoLink]\<rparr>) linkedWorld
       = Some (Inr (), registryWorld [])
   \<and> ''x'' \<notin> link_name ` set (dropLink ''x'' [demoLink])
   \<and> listLinks demoRuntime demoLinkOptions (registryWorld []) = Some (Inr [], registryWorld [])
   \<and> removeLink demoRuntime ''y'' demoLinkOptions linkedWorld
       = Some (Inr \<lparr>lr_success = False, lr_link = None,
                    lr_error = Some (''Link '' @ [dquote] @ ''y'' @ [dquote] @ '' not found'')\<rparr>,
               linkedWorld)"
proof -
  let ?ok = "\<lparr>lv_valid = True, lv_error = None\<rparr>"
  let ?added = "\<lparr>lr_success = True, lr_link = Some localLink, lr_error = None\<rparr>"
  let ?removed = "\<lparr>lr_success = True, lr_link = Some demoLink, lr_error = None\<rparr>"
  have rd: "readLinkRegistry demoRuntime (opt_target demoLinkOptions)
              (userLevelOrTrue demoLinkOptions) linkedWorld = Some (Inr demoRegistry, linkedWorld)"
    by code_simp
  have rdf: "readLinkRegistry demoRuntime (opt_target forcedLinkOptions)
              (userLevelOrTrue forcedLinkOptions) linkedWorld = Some (Inr demoRegistry, linkedWorld)"
    by code_simp
  have rd2: "readLinkRegistry demoRuntime (opt_target forcedLinkOptions)
              (userLevelOrTrue forcedLinkOptions) (registryWorld [localLink])
             = Some (Inr (demoRegistry\<lparr>links := [localLink]\<rparr>), registryWorld [localLink])"
    by code_simp
  have rd3: "readLinkRegistry demoRuntime (opt_target demoLinkOptions)
              (userLevelOrTrue demoLinkOptions) (registryWorld [])
             = Some (Inr (demoRegistry\<lparr>links := []\<rparr>), registryWorld [])"
    by code_simp
  have ls: "links demoRegistry = [demoLink]" "opt_target forcedLinkOptions = Claude"
    "userLevelOrTrue forcedLinkOptions = True" "opt_target demoLinkOptions = Claude"
    "userLevelOrTrue demoLinkOptions = True"
    by (simp_all add: demoRegistry_def forcedLinkOptions_def demoLinkOptions_def userLevelOrTrue_def)
  have present: "''x'' \<in> link_name ` set (links demoRegistry)"
    by (simp add: demoRegistry_def demoLink_def)
  have absent: "''y'' \<notin> link_name ` set (links demoRegistry)"
    by (simp add: demoRegistry_def demoLink_def)
  have noforce: "\<not> opt_force demoLinkOptions" by (simp add: demoLinkOptions_def)
  have force: "opt_force forcedLinkOptions" by (simp add: forcedLinkOptions_def)
  have fi: "findIndex (\<lambda>l. link_name l = ''x'') (links demoRegistry) = Some 0"
    by (simp add: demoRegistry_def demoLink_def)
  have dist: "distinct (map link_name (links demoRegistry))"
    by (simp add: demoRegistry_def)
  have fnd: "find (\<lambda>l. link_name l = ''x'') (links demoRegistry) = Some demoLink"
    by (simp add: demoRegistry_def demoLink_def)
  have okv: "lv_valid ?ok" by simp
  have okr: "lr_success ?added" "lr_success ?removed" by simp_all
  have valx: "validateLink demoRuntime (newLink ''x'' ''/src/demo'' None) linkedWorld
               = Some (Inr ?ok, linkedWorld)"
    by code_simp
  have valy: "validateLink demoRuntime (newLink ''y'' ''/src/demo'' None) linkedWorld
               = Some (Inr ?ok, linkedWorld)"
    by code_simp
  have wrx: "writeLinkRegistry demoRuntime (opt_target forcedLinkOptions)
               (userLevelOrTrue forcedLinkOptions)
               (demoRegistry\<lparr>links := upsertLink (newLink ''x'' ''/src/demo'' None)
                                         (links demoRegistry)\<rparr>) linkedWorld
             = Some (Inr (), registryWorld [localLink])"
    by code_simp
  have wry: "writeLinkRegistry demoRuntime (opt_target demoLinkOptions)
               (userLevelOrTrue demoLinkOptions)
               (demoRegistry\<lparr>links := upsertLink (newLink ''y'' ''/src/demo'' None)
                                         (links demoRegistry)\<rparr>) linkedWorld
             = Some (Inr (), registryWorld [demoLink, otherLink])"
    by code_simp
  have wrd: "writeLinkRegistry demoRuntime (opt_target demoLinkOptions)
               (userLevelOrTrue demoLinkOptions)
               (demoRegistry\<lparr>links := dropLink ''x'' (links demoRegistry)\<rparr>) linkedWorld
             = Some (Inr (), registryWorld [])"
    by code_simp
  note A = registry_add_remove [OF rd, where name = "''x''" and source = "''/src/demo''"
      and details = None and i = 0 and ?r2.0 = ?removed and ?w2.0 = "registryWorld []"]
  note F = registry_add_remove [OF rdf, where name = "''x''" and source = "''/src/demo''"
      and details = None and i = 0 and v = ?ok and r = ?added
      and w' = "registryWorld [localLink]"
      and ?w3.0 = "registryWorld [localLink]" and ?reg3.0 = "demoRegistry\<lparr>links := [localLink]\<rparr>"]
  note Y = registry_add_remove [OF rd, where name = "''y''" and source = "''/src/demo''"
      and details = None and v = ?ok and w' = "registryWorld [demoLink, otherLink]"
      and ?w3.0 = "registryWorld []" and ?reg3.0 = "demoRegistry\<lparr>links := []\<rparr>"]
  from A present noforce
  have c1: "addLink demoRuntime ''x'' ''/src/demo'' demoLinkOptions None linkedWorld
     = Some (Inr \<lparr>lr_success = False, lr_link = None,
                  lr_error = Some (''Link '' @ [dquote] @ ''x'' @ [dquote]
                                   @ '' already exists. Use --force to overwrite.'')\<rparr>, linkedWorld)"
    and c2: "listLinks demoRuntime demoLinkOptions linkedWorld = Some (Inr [demoLink], linkedWorld)"
    unfolding ls by blast+
  from F force valx wrx okv
  have c3: "addLink demoRuntime ''x'' ''/src/demo'' forcedLinkOptions None linkedWorld
       = Some (Inr ?added, registryWorld [localLink])"
    unfolding localLink_def by blast
  from F c3 okr(1)
  have c4: "writeLinkRegistry demoRuntime Claude True
        (demoRegistry\<lparr>links := upsertLink localLink [demoLink]\<rparr>) linkedWorld
       = Some (Inr (), registryWorld [localLink])"
    unfolding ls localLink_def by blast
  from F fi have c5: "upsertLink localLink [demoLink] = [demoLink][0 := localLink]"
    unfolding ls localLink_def by blast
  from F dist
  have c6: "length (filter (\<lambda>l. link_name l = ''x'') (upsertLink localLink [demoLink])) = 1"
    unfolding ls localLink_def by blast
  from F rd2 have c7: "listLinks demoRuntime forcedLinkOptions (registryWorld [localLink])
       = Some (Inr [localLink], registryWorld [localLink])"
    by simp
  from Y absent valy wry okv
  have c8: "addLink demoRuntime ''y'' ''/src/demo'' demoLinkOptions None linkedWorld
       = Some (Inr \<lparr>lr_success = True, lr_link = Some otherLink, lr_error = None\<rparr>,
               registryWorld [demoLink, otherLink])"
    unfolding otherLink_def by blast
  from Y absent have c9: "upsertLink otherLink [demoLink] = [demoLink] @ [otherLink]"
    unfolding ls otherLink_def by blast
  from A present wrd
  have c10: "removeLink demoRuntime ''x'' demoLinkOptions linkedWorld
       = Some (Inr ?removed, registryWorld [])"
    unfolding fnd by blast
  from A c10 okr(2)
  have c11: "writeLinkRegistry demoRuntime Claude True
        (demoRegistry\<lparr>links := dropLink ''x'' [demoLink]\<rparr>) linkedWorld
       = Some (Inr (), registryWorld [])"
    unfolding ls by blast
  from A dist have c12: "''x'' \<notin> link_name ` set (dropLink ''x'' [demoLink])"
    unfolding ls by blast
  from Y rd3
  have c13: "listLinks demoRuntime demoLinkOptions (registryWorld []) = Some (Inr [], registryWorld [])"
    by simp
  from Y absent
  have c14: "removeLink demoRuntime ''y'' demoLinkOptions linkedWorld
       = Some (Inr \<lparr>lr_success = False, lr_link = None,
                    lr_error = Some (''Link '' @ [dquote] @ ''y'' @ [dquote] @ '' not found'')\<rparr>,
               linkedWorld)"
    by blast
  from c1 c2 c3 c4 c5 c6 c7 c8 c9 c10 c11 c12 c13 c14 show ?thesis by blast
qed


text \<open>
  Claim C10. Let the registry file hold \<open>reg\<close>. When no link carries the name,
  \<open>toggleLink\<close> returns the not-found failure in the unchanged world: nothing is written.
  When the first link carrying the name is at index \<open>i\<close>, the registry written is
  \<open>reg\<close> with the enabled flag of that one link set: the version, the number and the
  order of the links, every other link, and the name, type, source, path, branch and
  description of the link itself are as before.
\<close>

theorem toggleLink_frame:
  assumes "readLinkRegistry E (opt_target options) (userLevelOrTrue options) w = Some (Inr reg, w)"
  shows
  "(findIndex (\<lambda>l. link_name l = name) (links reg) = None \<longrightarrow>
      toggleLink E name enabled options w
        = Some (Inr \<lparr>lr_success = False, lr_link = None,
                     lr_error = Some (''Link '' @ [dquote] @ name @ [dquote] @ '' not found'')\<rparr>, w))
   \<and> (findIndex (\<lambda>l. link_name l = name) (links reg) = Some i \<longrightarrow>
        (let link' = (links reg ! i)\<lparr>link_enabled := enabled\<rparr>;
             reg' = reg\<lparr>links := (links reg)[i := link']\<rparr>
         in toggleLink E name enabled options w
              = (case writeLinkRegistry E (opt_target options) (userLevelOrTrue options) reg' w of
                   None \<Rightarrow> None
                 | Some (Inl e, w') \<Rightarrow>
                     Some (Inr \<lparr>lr_success = False, lr_link = None,
                             lr_error = Some (errorMessage e)\<rparr>, w')
                 | Some (Inr u, w') \<Rightarrow>
                     Some (Inr \<lparr>lr_success = True, lr_link = Some link', lr_error = None\<rparr>, w'))
            \<and> i < length (links reg) \<and> link_name (links reg ! i) = name
            \<and> version reg' = version reg
            \<and> length (links reg') = length (links reg)
            \<and> map link_name (links reg') = map link_name (links reg)
            \<and> (\<forall>j. j < length (links reg) \<and> j \<noteq> i \<longrightarrow> links reg' ! j = links reg ! j)
            \<and> link_enabled (links reg' ! i) = enabled
            \<and> link_name (links reg' ! i) = link_name (links reg ! i)
            \<and> link_type (links reg' ! i) = link_type (links reg ! i)
            \<and> link_source (links reg' ! i) = link_source (links reg ! i)
            \<and> link_path (links reg' ! i) = link_path (links reg ! i)
            \<and> link_branch (links reg' ! i) = link_branch (links reg ! i)
            \<and> link_description (links reg' ! i) = link_description (links reg ! i)))"
proof (intro conjI impI)
  assume "findIndex (\<lambda>l. link_name l = name) (links reg) = None"
  then show "toggleLink E name enabled options w
        = Some (Inr \<lparr>lr_success = False, lr_link = None,
                     lr_error = Some (''Link '' @ [dquote] @ name @ [dquote] @ '' not found'')\<rparr>, w)"
    by (simp add: toggleLink_run [OF assms])
next
  assume f: "findIndex (\<lambda>l. link_name l = name) (links reg) = Some i"
  from findIndex_Some [OF f] have i: "i < length (links reg)" "link_name (links reg ! i) = name"
    by auto
  have names: "map link_name ((links reg)[i := (links reg ! i)\<lparr>link_enabled := enabled\<rparr>])
      = map link_name (links reg)"
    using i by (simp add: map_update list_update_same_conv)
  show "(let link' = (links reg ! i)\<lparr>link_enabled := enabled\<rparr>;
             reg' = reg\<lparr>links := (links reg)[i := link']\<rparr>
         in toggleLink E name enabled options w
              = (case writeLinkRegistry E (opt_target options) (userLevelOrTrue options) reg' w of
                   None \<Rightarrow> None
                 | Some (Inl e, w') \<Rightarrow>
                     Some (Inr \<lparr>lr_success = False, lr_link = None,
                             lr_error = Some (errorMessage e)\<rparr>, w')
                 | Some (Inr u, w') \<Rightarrow>
                     Some (Inr \<lparr>lr_success = True, lr_link = Some link', lr_error = None\<rparr>, w'))
            \<and> i < length (links reg) \<and> link_name (links reg ! i) = name
            \<and> version reg' = version reg
            \<and> length (links reg') = length (links reg)
            \<and> map link_name (links reg') = map link_name (links reg)
            \<and> (\<forall>j. j < length (links reg) \<and> j \<noteq> i \<longrightarrow> links reg' ! j = links reg ! j)
            \<and> link_enabled (links reg' ! i) = enabled
            \<and> link_name (links reg' ! i) = link_name (links reg ! i)
            \<and> link_type (links reg' ! i) = link_type (links reg ! i)
            \<and> link_source (links reg' ! i) = link_source (links reg ! i)
            \<and> link_path (links reg' ! i) = link_path (links reg ! i)
            \<and> link_branch (links reg' ! i) = link_branch (links reg ! i)
            \<and> link_description (links reg' ! i) = link_description (links reg ! i))"
    unfolding Let_def
    using i names f
    by (simp add: toggleLink_run [OF assms] split: option.splits sum.splits prod.splits)
qed

theorem toggleLink_frame_witness:
  "toggleLink demoRuntime ''nope'' False demoLinkOptions linkedWorld
     = Some (Inr \<lparr>lr_success = False, lr_link = None,
                  lr_error = Some (''Link '' @ [dquote] @ ''nope'' @ [dquote] @ '' not found'')\<rparr>,
             linkedWorld)
   \<and> toggleLink demoRuntime ''x'' False demoLinkOptions linkedWorld
     = Some (Inr \<lparr>lr_success = True, lr_link = Some (demoLink\<lparr>link_enabled := False\<rparr>),
                  lr_error = None\<rparr>,
             registryWorld [demoLink\<lparr>link_enabled := False\<rparr>])"
proof -
  have rd: "readLinkRegistry demoRuntime (opt_target demoLinkOptions)
              (userLevelOrTrue demoLinkOptions) linkedWorld = Some (Inr demoRegistry, linkedWorld)"
    by code_simp
  have none: "findIndex (\<lambda>l. link_name l = ''nope'') (links demoRegistry) = None"
    by (simp add: demoRegistry_def demoLink_def)
  have some: "findIndex (\<lambda>l. link_name l = ''x'') (links demoRegistry) = Some 0"
    by (simp add: demoRegistry_def demoLink_def)
  have wr: "writeLinkRegistry demoRuntime (opt_target demoLinkOptions) (userLevelOrTrue demoLinkOptions)
      (demoRegistry\<lparr>links := (links demoRegistry)[0 := demoLink\<lparr>link_enabled := False\<rparr>]\<rparr>)
      linkedWorld = Some (Inr (), registryWorld [demoLink\<lparr>link_enabled := False\<rparr>])"
    by code_simp
  have l0: "links demoRegistry ! 0 = demoLink" by (simp add: demoRegistry_def)
  from toggleLink_frame [OF rd, where name = "''nope''" and enabled = False] none
  have c1: "toggleLink demoRuntime ''nope'' False demoLinkOptions linkedWorld
     = Some (Inr \<lparr>lr_success = False, lr_link = None,
                  lr_error = Some (''Link '' @ [dquote] @ ''nope'' @ [dquote] @ '' not found'')\<rparr>,
             linkedWorld)"
    by blast
  from toggleLink_frame [OF rd, where name = "''x''" and enabled = False and i = 0] some
  have "toggleLink demoRuntime ''x'' False demoLinkOptions linkedWorld
     = (case writeLinkRegistry demoRuntime (opt_target demoLinkOptions) (userLevelOrTrue demoLinkOptions)
      (demoRegistry\<lparr>links := (links demoRegistry)[0 := (links demoRegistry ! 0)\<lparr>link_enabled := False\<rparr>]\<rparr>)
      linkedWorld of
          None \<Rightarrow> None
        | Some (Inl e, w') \<Rightarrow>
            Some (Inr \<lparr>lr_success = False, lr_link = None, lr_error = Some (errorMessage e)\<rparr>, w')
        | Some (Inr u, w') \<Rightarrow>
            Some (Inr \<lparr>lr_success = True,
                    lr_link = Some ((links demoRegistry ! 0)\<lparr>link_enabled := False\<rparr>),
                    lr_error = None\<rparr>, w'))"
    unfolding Let_def by blast
  then have c2: "toggleLink demoRuntime ''x'' False demoLinkOptions linkedWorld
     = Some (Inr \<lparr>lr_success = True, lr_link = Some (demoLink\<lparr>link_enabled := False\<rparr>),
                  lr_error = None\<rparr>,
             registryWorld [demoLink\<lparr>link_enabled := False\<rparr>])"
    unfolding l0 wr by simp
  from c1 c2 show ?thesis by blast
qed


section \<open>The synchronizer: properties\<close>

lemma syncLink_never_throws: "syncLink E fuel name options w = Some (r, w') \<Longrightarrow> \<exists>x. r = Inr x"
  by (auto simp add: syncLink_def ioCatch_apply ioReturn_apply split: option.splits sum.splits prod.splits)

lemma syncLinks_filter:
  "syncLinks E fuel options ls = syncEach E fuel options (map link_name (filter link_enabled ls))"
  by (induction ls) simp_all

lemma syncEach_results:
  "syncEach E fuel options names w = Some (res, w') \<Longrightarrow>
     \<exists>results. res = Inr results \<and> length results = length names"
proof (induction names arbitrary: w res w')
  case Nil
  then show ?case by (auto simp add: io_apply)
next
  case (Cons n ns)
  from Cons.prems obtain r w1 where r: "syncLink E fuel n options w = Some (r, w1)"
    by (auto simp add: io_apply split: option.splits)
  from syncLink_never_throws [OF r] obtain x where x: "r = Inr x" by blast
  from Cons.prems r x obtain res1 where res1: "syncEach E fuel options ns w1 = Some (res1, w')"
    by (auto simp add: io_apply split: option.splits sum.splits prod.splits)
  from Cons.IH [OF res1] obtain rs where "res1 = Inr rs" "length rs = length ns" by blast
  with Cons.prems r x res1 show ?case by (auto simp add: io_apply)
qed

lemma syncEach_append:
  "syncEach E fuel options (ns1 @ ns2) w =
     (case syncEach E fuel options ns1 w of
        None \<Rightarrow> None
      | Some (Inl e, w1) \<Rightarrow> Some (Inl e, w1)
      | Some (Inr rs1, w1) \<Rightarrow>
          (case syncEach E fuel options ns2 w1 of
             None \<Rightarrow> None
           | Some (Inl e, w2) \<Rightarrow> Some (Inl e, w2)
           | Some (Inr rs2, w2) \<Rightarrow> Some (Inr (rs1 @ rs2), w2)))"
proof (induction ns1 arbitrary: w)
  case Nil
  then show ?case by (simp add: io_apply split: option.splits sum.splits prod.splits)
next
  case (Cons n ns1)
  show ?case
    by (simp add: io_apply Cons.IH split: option.splits sum.splits prod.splits)
qed

lemma syncEach_split:
  "syncEach E fuel options (before @ n # after) w = Some (Inr results, w') \<longleftrightarrow>
     (\<exists>rs1 w1 r w2 rs2.
        syncEach E fuel options before w = Some (Inr rs1, w1)
        \<and> syncLink E fuel n options w1 = Some (Inr r, w2)
        \<and> syncEach E fuel options after w2 = Some (Inr rs2, w')
        \<and> results = rs1 @ r # rs2)"
  by (auto simp add: syncEach_append io_apply split: option.splits sum.splits prod.splits)

text \<open>
  Claim C9. Let the registry file hold \<open>reg\<close>. \<open>syncAllLinks\<close> is one \<open>syncLink\<close>
  per enabled link, by name and in registry order; disabled links contribute nothing.
  Whenever it returns, it returns one result per enabled link. A run over a list of names
  returns exactly when the run over the names before a link, the sync of that link and the
  run over the names after it return, each from the state the previous one left, and its
  results are theirs in order: whether the link's result is a success or a failure plays
  no part, so a failure does not stop the iteration.
\<close>

theorem syncAllLinks_enabled_in_order:
  assumes "readLinkRegistry E (opt_target options) (userLevelOrTrue options) w = Some (Inr reg, w)"
  shows
  "syncAllLinks E fuel options w
     = syncEach E fuel options (map link_name (filter link_enabled (links reg))) w
   \<and> (syncAllLinks E fuel options w = Some (res, w') \<longrightarrow>
        (\<exists>results. res = Inr results
           \<and> length results = length (filter link_enabled (links reg))))
   \<and> (syncEach E fuel options (before @ n # after) v = Some (Inr results, v') \<longleftrightarrow>
        (\<exists>rs1 v1 r v2 rs2.
           syncEach E fuel options before v = Some (Inr rs1, v1)
           \<and> syncLink E fuel n options v1 = Some (Inr r, v2)
           \<and> syncEach E fuel options after v2 = Some (Inr rs2, v')
           \<and> results = rs1 @ r # rs2))"
proof (intro conjI impI)
  show eq: "syncAllLinks E fuel options w
     = syncEach E fuel options (map link_name (filter link_enabled (links reg))) w"
    using assms by (simp add: syncAllLinks_def io_apply syncLinks_filter)
  {
    assume "syncAllLinks E fuel options w = Some (res, w')"
    with eq have "syncEach E fuel options (map link_name (filter link_enabled (links reg))) w
        = Some (res, w')" by simp
    from syncEach_results [OF this]
    show "\<exists>results. res = Inr results
           \<and> length results = length (filter link_enabled (links reg))" by simp
  }
  show "syncEach E fuel options (before @ n # after) v = Some (Inr results, v') \<longleftrightarrow>
        (\<exists>rs1 v1 r v2 rs2.
           syncEach E fuel options before v = Some (Inr rs1, v1)
           \<and> syncLink E fuel n options v1 = Some (Inr r, v2)
           \<and> syncEach E fuel options after v2 = Some (Inr rs2, v')
           \<and> results = rs1 @ r # rs2)"
    by (rule syncEach_split)
qed


theorem syncAllLinks_enabled_in_order_witness:
  "syncAllLinks demoRuntime 5 demoLinkOptions threeLinksWorld
     = syncEach demoRuntime 5 demoLinkOptions [''a'', ''x''] threeLinksWorld
   \<and> (case syncAllLinks demoRuntime 5 demoLinkOptions threeLinksWorld of
        Some (Inr results, w') \<Rightarrow> length results = 2 \<and> map sr_success results = [False, True]
      | _ \<Rightarrow> False)"
proof -
  let ?reg = "\<lparr>version = LINK_REGISTRY_VERSION, links = [webLink, disabledLink, demoLink]\<rparr>"
  define res where "res = fst (the (syncAllLinks demoRuntime 5 demoLinkOptions threeLinksWorld))"
  define wf where "wf = snd (the (syncAllLinks demoRuntime 5 demoLinkOptions threeLinksWorld))"
  have rd: "readLinkRegistry demoRuntime (opt_target demoLinkOptions)
              (userLevelOrTrue demoLinkOptions) threeLinksWorld = Some (Inr ?reg, threeLinksWorld)"
    by code_simp
  have names: "map link_name (filter link_enabled (links ?reg)) = [''a'', ''x'']"
    by (simp add: webLink_def disabledLink_def demoLink_def)
  have len: "length (filter link_enabled (links ?reg)) = 2"
    by (simp add: webLink_def disabledLink_def demoLink_def)
  have run: "syncAllLinks demoRuntime 5 demoLinkOptions threeLinksWorld = Some (res, wf)"
    unfolding res_def wf_def by code_simp
  have verdicts: "map_sum id (map sr_success) res = Inr [False, True]"
    unfolding res_def by code_simp
  note T = syncAllLinks_enabled_in_order [OF rd, where fuel = 5 and res = res and w' = wf]
  from T have c1: "syncAllLinks demoRuntime 5 demoLinkOptions threeLinksWorld
     = syncEach demoRuntime 5 demoLinkOptions [''a'', ''x''] threeLinksWorld"
    unfolding names by blast
  from T run obtain results where r: "res = Inr results" "length results = 2"
    unfolding len by blast
  from r verdicts have "map sr_success results = [False, True]" by simp
  with r have "(case Some (res, wf) of
        Some (Inr results, w') \<Rightarrow> length results = 2 \<and> map sr_success results = [False, True]
      | _ \<Rightarrow> False)" by simp
  then have c2: "(case syncAllLinks demoRuntime 5 demoLinkOptions threeLinksWorld of
        Some (Inr results, w') \<Rightarrow> length results = 2 \<and> map sr_success results = [False, True]
      | _ \<Rightarrow> False)"
    unfolding run .
  from c1 c2 show ?thesis by blast
qed

text \<open>
  Claim C3 (the code does not do what the claim says when the link declares a sub-path):
  after a successful sync of a git link with path \<open>skills/demo\<close>, the temporary clone
  directory \<open>/tmp/skill-link-0\<close> is still there, with the rest of the clone in it; only
  the sub-path was removed. The \<^verbatim>\<open>finally\<close> block removes \<open>skillDir\<close>, which is the
  temporary directory only when no sub-path is declared.
\<close>

theorem syncLink_leaves_temporary_directory:
  "(case syncLink demoRuntime 5 ''x'' demoLinkOptions linkedWorld of
      Some (Inr r, w') \<Rightarrow>
        sr_success r
        \<and> memStat ''/tmp/skill-link-0'' w' = Inr True
        \<and> memStat ''/tmp/skill-link-0/README.md'' w' = Inr False
        \<and> memStat ''/tmp/skill-link-0/skills/demo'' w' = Inl (notFound ''/tmp/skill-link-0/skills/demo'')
    | _ \<Rightarrow> False)"
  by code_simp

text \<open>
  The two sibling paths do remove the temporary directory: a clone that fails, and a
  sync of a link without a sub-path.
\<close>

lemma syncLink_clone_failure_cleans_up:
  "(case syncLink demoRuntime 5 ''m'' demoLinkOptions (registryWorld [missingLink]) of
      Some (Inr r, w') \<Rightarrow>
        \<not> sr_success r
        \<and> sr_error r = Some ''Git clone failed: fatal: repository not found''
        \<and> memStat ''/tmp/skill-link-0'' w' = Inl (notFound ''/tmp/skill-link-0'')
    | _ \<Rightarrow> False)"
  by code_simp

lemma syncLink_without_subpath_cleans_up:
  "(case syncLink demoRuntime 5 ''r'' demoLinkOptions (registryWorld [rootLink]) of
      Some (Inr r, w') \<Rightarrow>
        sr_success r
        \<and> memStat ''/tmp/skill-link-0'' w' = Inl (notFound ''/tmp/skill-link-0'')
        \<and> memStat ''/home/user/.claude/skills/demo/SKILL.md'' w' = Inr False
    | _ \<Rightarrow> False)"
  by code_simp

end
